theory Spec2Isabelle
  imports Complex_Main
begin

section \<open>Car ticket booking API: request values, store and libraries\<close>

text \<open>
  The program is one Express application (\<^verbatim>\<open>src/index.js\<close>) over a PostgreSQL
  store whose schema is the three \<^verbatim>\<open>CREATE TABLE\<close> statements that follow it.
  Handlers are modelled as functions from a request and a store to a response and a
  store. The packages the handlers call (\<^verbatim>\<open>bcryptjs\<close>, \<^verbatim>\<open>jsonwebtoken\<close>
  and the parameter conversion of \<^verbatim>\<open>pg\<close>) are not part of the repository; they
  are a parameter of every handler, the record \<open>lib\<close>, and theorems hold for every
  value of it unless a hypothesis says otherwise. A statement sent to the store fails
  for the reasons the schema gives (a parameter that does not convert, a constraint, an
  exhausted sequence); a lost connection, which the handlers would also answer with
  500, is not modelled.
\<close>

subsection \<open>JavaScript values and truthiness\<close>

text \<open>
  A field of a parsed JSON body. \<open>JUndefined\<close> is what reading an absent property
  gives. Of a number only the test against zero matters here, so numbers are rationals.
\<close>

datatype jsval =
    JUndefined
  | JNull
  | JBool bool
  | JNum rat
  | JStr string
  | JArr "jsval list"
  | JObj "(string \<times> jsval) list"

text \<open>The test \<^verbatim>\<open>!v\<close> of the source is \<open>\<not> truthy v\<close>.\<close>

fun truthy :: "jsval \<Rightarrow> bool" where
  "truthy JUndefined = False"
| "truthy JNull = False"
| "truthy (JBool b) = b"
| "truthy (JNum n) = (n \<noteq> 0)"
| "truthy (JStr s) = (s \<noteq> [])"
| "truthy (JArr xs) = True"
| "truthy (JObj kvs) = True"

text \<open>
  A parsed object is the list of its properties; reading a property gives its value, or
  \<^verbatim>\<open>undefined\<close> when the object has none of that name.
\<close>

type_synonym jsobject = "(string \<times> jsval) list"

definition field :: "jsobject \<Rightarrow> string \<Rightarrow> jsval" where
  "field obj k = (case map_of obj k of None \<Rightarrow> JUndefined | Some v \<Rightarrow> v)"

text \<open>\<^verbatim>\<open>s.split(' ')\<close>: every occurrence of the separator cuts, so the result is never empty.\<close>

fun split_on :: "char \<Rightarrow> string \<Rightarrow> string list" where
  "split_on sep [] = [[]]"
| "split_on sep (c # cs) =
     (if c = sep then [] # split_on sep cs
      else (case split_on sep cs of
              [] \<Rightarrow> [[c]]
            | w # ws \<Rightarrow> (c # w) # ws))"

subsection \<open>Requests and responses\<close>

record request =
  authorization :: "string option"
  params_id :: string
  body :: jsobject

subsection \<open>The schema\<close>

text \<open>A calendar date: year, month, day.\<close>

type_synonym sql_date = "int \<times> int \<times> int"

record user_row =
  u_id :: int
  u_name :: "string option"
  u_email :: "string option"
  u_password :: "string option"

record car_row =
  c_id :: int
  c_name :: "string option"
  c_details :: "string option"
  c_price :: "rat option"

record booking_row =
  b_id :: int
  b_user_id :: "int option"
  b_car_id :: "int option"
  b_travel_date :: "sql_date option"

text \<open>
  The three tables in insertion order, and the next value of the sequence behind each
  \<^verbatim>\<open>SERIAL\<close> column. A nullable column is an \<open>option\<close>.
\<close>

record store =
  users :: "user_row list"
  cars :: "car_row list"
  bookings :: "booking_row list"
  users_id_seq :: int
  cars_id_seq :: int
  bookings_id_seq :: int

definition empty_store :: store where
  "empty_store = \<lparr>users = [], cars = [], bookings = [],
                   users_id_seq = 1, cars_id_seq = 1, bookings_id_seq = 1\<rparr>"

datatype sql_error =
    InvalidTextRepresentation
  | CharacterNotInRepertoire
  | StringDataRightTruncation
  | SequenceLimit
  | UniqueViolation
  | ForeignKeyViolation

text \<open>Rows of the two joins of the booking reads.\<close>

record booking_view =
  v_id :: int
  v_travel_date :: "sql_date option"
  v_car_name :: "string option"
  v_car_details :: "string option"
  v_car_price :: "rat option"

record booking_detail = booking_view +
  v_user_name :: "string option"
  v_user_email :: "string option"

datatype reply =
    ErrorBody string
  | MessageBody string
  | TokenBody string
  | CarsBody "car_row list"
  | CarBody car_row
  | BookingsBody "booking_view list"
  | BookingBody booking_detail

type_synonym response = "nat \<times> reply"

subsection \<open>The packages\<close>

record jwt_payload =
  payload_id :: jsval
  payload_email :: jsval

record claims =
  claim_id :: jsval
  claim_email :: jsval
  claim_iat :: nat
  claim_exp :: nat

datatype jwt_error = TokenExpiredError | JsonWebTokenError | NotBeforeError

text \<open>
  \<^descr>[\<open>bcrypt_hash password rounds entropy\<close>] the digest, or \<open>None\<close> when the promise rejects;
    \<open>entropy\<close> is the randomness the salt is drawn from.
  \<^descr>[\<open>bcrypt_compare password digest\<close>] the verdict, or \<open>None\<close> when the promise rejects.
  \<^descr>[\<open>jwt_sign payload secret expiresIn clock\<close>] the token, or \<open>None\<close> when it throws;
    \<open>clock\<close> is the time of the call in seconds.
  \<^descr>[\<open>jwt_verify token secret clock\<close>] the error or the decoded payload handed to the callback.
  \<^descr>[\<open>pg_text\<close>, \<open>pg_int4\<close>, \<open>pg_numeric\<close>, \<open>pg_date\<close>] what a query parameter
    becomes where the statement wants a value of that column type: SQL \<open>NULL\<close>
    (\<open>None\<close>), a value, or the error the statement then fails with (a text that
    holds a NUL character, digits that are no integer, and so on).
\<close>

record lib =
  bcrypt_hash :: "jsval \<Rightarrow> nat \<Rightarrow> nat \<Rightarrow> string option"
  bcrypt_compare :: "jsval \<Rightarrow> string option \<Rightarrow> bool option"
  jwt_sign :: "jwt_payload \<Rightarrow> string option \<Rightarrow> string \<Rightarrow> nat \<Rightarrow> string option"
  jwt_verify :: "string \<Rightarrow> string option \<Rightarrow> nat \<Rightarrow> jwt_error + claims"
  pg_text :: "jsval \<Rightarrow> sql_error + string option"
  pg_int4 :: "jsval \<Rightarrow> sql_error + int option"
  pg_numeric :: "jsval \<Rightarrow> sql_error + rat option"
  pg_date :: "jsval \<Rightarrow> sql_error + sql_date option"

subsection \<open>The statements the handlers send\<close>

definition int4_max :: int where
  "int4_max = 2147483647"

text \<open>
  What a \<^verbatim>\<open>VARCHAR(n)\<close> column keeps of a value assigned to it: the value when it has at
  most \<open>n\<close> characters; its first \<open>n\<close> characters when everything beyond them is blanks;
  otherwise the statement fails.
\<close>

definition varchar :: "nat \<Rightarrow> string option \<Rightarrow> sql_error + string option" where
  "varchar n v =
     (case v of
        None \<Rightarrow> Inr None
      | Some t \<Rightarrow>
          if length t \<le> n then Inr (Some t)
          else if list_all (\<lambda>c. c = CHR '' '') (drop n t) then Inr (Some (take n t))
          else Inl StringDataRightTruncation)"

text \<open>
  \<^verbatim>\<open>SELECT * FROM users WHERE email = $1\<close>. The statement fails when the parameter
  does not convert; a comparison with \<open>NULL\<close> selects nothing.
\<close>

definition select_users_by_email :: "lib \<Rightarrow> jsval \<Rightarrow> store \<Rightarrow> sql_error + user_row list" where
  "select_users_by_email L email s =
     (case pg_text L email of
        Inl err \<Rightarrow> Inl err
      | Inr None \<Rightarrow> Inr []
      | Inr (Some e) \<Rightarrow> Inr (filter (\<lambda>u. u_email u = Some e) (users s)))"

text \<open>
  \<^verbatim>\<open>INSERT INTO users(name, email, password) VALUES($1, $2, $3)\<close>. The id is the next
  value of the sequence, which stays consumed when a constraint then rejects the row;
  \<open>email\<close> is \<^verbatim>\<open>UNIQUE\<close> and \<open>id\<close> the primary key.
\<close>

definition insert_user :: "lib \<Rightarrow> jsval \<Rightarrow> jsval \<Rightarrow> string \<Rightarrow> store \<Rightarrow> (sql_error + unit) \<times> store" where
  "insert_user L name email hashedPassword s =
     (case pg_text L name of
        Inl err \<Rightarrow> (Inl err, s)
      | Inr name_text \<Rightarrow>
     (case pg_text L email of
        Inl err \<Rightarrow> (Inl err, s)
      | Inr email_text \<Rightarrow>
     (case varchar 100 name_text of
        Inl err \<Rightarrow> (Inl err, s)
      | Inr n \<Rightarrow>
     (case varchar 100 email_text of
        Inl err \<Rightarrow> (Inl err, s)
      | Inr e \<Rightarrow>
          if int4_max < users_id_seq s then (Inl SequenceLimit, s)
          else
            let new_id = users_id_seq s;
                s1 = s\<lparr>users_id_seq := new_id + 1\<rparr>
            in if (\<exists>u \<in> set (users s). u_id u = new_id) then (Inl UniqueViolation, s1)
               else if e \<noteq> None \<and> (\<exists>u \<in> set (users s). u_email u = e)
                 then (Inl UniqueViolation, s1)
               else (Inr (), s1\<lparr>users := users s @
                       [\<lparr>u_id = new_id, u_name = n, u_email = e,
                         u_password = Some hashedPassword\<rparr>]\<rparr>)))))"

text \<open>\<^verbatim>\<open>SELECT * FROM cars ORDER BY id\<close>.\<close>

definition select_cars :: "store \<Rightarrow> car_row list" where
  "select_cars s = sort_key c_id (cars s)"

text \<open>\<^verbatim>\<open>SELECT * FROM cars WHERE id = $1\<close>.\<close>

definition select_cars_by_id :: "lib \<Rightarrow> jsval \<Rightarrow> store \<Rightarrow> sql_error + car_row list" where
  "select_cars_by_id L car_id s =
     (case pg_int4 L car_id of
        Inl err \<Rightarrow> Inl err
      | Inr k \<Rightarrow> Inr (filter (\<lambda>c. Some (c_id c) = k) (cars s)))"

text \<open>\<^verbatim>\<open>INSERT INTO cars(name, details, price) VALUES($1, $2, $3)\<close>.\<close>

definition insert_car :: "lib \<Rightarrow> jsval \<Rightarrow> jsval \<Rightarrow> jsval \<Rightarrow> store \<Rightarrow> (sql_error + unit) \<times> store" where
  "insert_car L name details price s =
     (case pg_numeric L price of
        Inl err \<Rightarrow> (Inl err, s)
      | Inr p \<Rightarrow>
     (case pg_text L name of
        Inl err \<Rightarrow> (Inl err, s)
      | Inr name_text \<Rightarrow>
     (case pg_text L details of
        Inl err \<Rightarrow> (Inl err, s)
      | Inr d \<Rightarrow>
     (case varchar 100 name_text of
        Inl err \<Rightarrow> (Inl err, s)
      | Inr n \<Rightarrow>
          if int4_max < cars_id_seq s then (Inl SequenceLimit, s)
          else
            let new_id = cars_id_seq s;
                s1 = s\<lparr>cars_id_seq := new_id + 1\<rparr>
            in if (\<exists>c \<in> set (cars s). c_id c = new_id) then (Inl UniqueViolation, s1)
               else (Inr (), s1\<lparr>cars := cars s @
                       [\<lparr>c_id = new_id, c_name = n, c_details = d, c_price = p\<rparr>]\<rparr>)))))"

text \<open>
  The join of \<^verbatim>\<open>GET /bookings\<close>: bookings of one user with their cars,
  \<^verbatim>\<open>ORDER BY b.id DESC\<close>.
\<close>

definition car_view :: "booking_row \<Rightarrow> car_row \<Rightarrow> booking_view" where
  "car_view b c = \<lparr>v_id = b_id b, v_travel_date = b_travel_date b, v_car_name = c_name c,
                   v_car_details = c_details c, v_car_price = c_price c\<rparr>"

definition select_bookings_of_user :: "lib \<Rightarrow> jsval \<Rightarrow> store \<Rightarrow> sql_error + booking_view list" where
  "select_bookings_of_user L user_id s =
     (case pg_int4 L user_id of
        Inl err \<Rightarrow> Inl err
      | Inr uid \<Rightarrow>
          Inr (rev (sort_key v_id
            (concat (map (\<lambda>b.
               if b_user_id b \<noteq> None \<and> b_user_id b = uid
               then map (car_view b) (filter (\<lambda>c. b_car_id b = Some (c_id c)) (cars s))
               else []) (bookings s))))))"

text \<open>
  The join of \<^verbatim>\<open>GET /bookings/:id\<close>: bookings with their car and their user,
  \<^verbatim>\<open>WHERE b.id = $1 AND b.user_id = $2\<close>.
\<close>

definition user_car_view :: "booking_row \<Rightarrow> car_row \<Rightarrow> user_row \<Rightarrow> booking_detail" where
  "user_car_view b c u = \<lparr>v_id = b_id b, v_travel_date = b_travel_date b, v_car_name = c_name c,
                          v_car_details = c_details c, v_car_price = c_price c,
                          v_user_name = u_name u, v_user_email = u_email u\<rparr>"

definition select_booking_of_user :: "lib \<Rightarrow> jsval \<Rightarrow> jsval \<Rightarrow> store \<Rightarrow> sql_error + booking_detail list" where
  "select_booking_of_user L booking_id user_id s =
     (case pg_int4 L booking_id of
        Inl err \<Rightarrow> Inl err
      | Inr k \<Rightarrow>
         (case pg_int4 L user_id of
            Inl err \<Rightarrow> Inl err
          | Inr uid \<Rightarrow>
              Inr (concat (map (\<lambda>b.
                 if Some (b_id b) = k \<and> b_user_id b \<noteq> None \<and> b_user_id b = uid
                 then concat (map (\<lambda>c.
                        map (user_car_view b c)
                            (filter (\<lambda>u. b_user_id b = Some (u_id u)) (users s)))
                      (filter (\<lambda>c. b_car_id b = Some (c_id c)) (cars s)))
                 else []) (bookings s)))))"

text \<open>
  \<^verbatim>\<open>INSERT INTO bookings(user_id, car_id, travel_date) VALUES($1, $2, $3)\<close>. Both
  references are nullable and, when not \<open>NULL\<close>, must name a row.
\<close>

definition insert_booking :: "lib \<Rightarrow> jsval \<Rightarrow> jsval \<Rightarrow> jsval \<Rightarrow> store \<Rightarrow> (sql_error + unit) \<times> store" where
  "insert_booking L user_id car_id travel_date s =
     (case pg_int4 L user_id of
        Inl err \<Rightarrow> (Inl err, s)
      | Inr uid \<Rightarrow>
         (case pg_int4 L car_id of
            Inl err \<Rightarrow> (Inl err, s)
          | Inr cid \<Rightarrow>
             (case pg_date L travel_date of
                Inl err \<Rightarrow> (Inl err, s)
              | Inr d \<Rightarrow>
                  if int4_max < bookings_id_seq s then (Inl SequenceLimit, s)
                  else
                    let new_id = bookings_id_seq s;
                        s1 = s\<lparr>bookings_id_seq := new_id + 1\<rparr>
                    in if (\<exists>b \<in> set (bookings s). b_id b = new_id) then (Inl UniqueViolation, s1)
                       else if uid \<noteq> None \<and> \<not> (\<exists>u \<in> set (users s). Some (u_id u) = uid)
                         then (Inl ForeignKeyViolation, s1)
                       else if cid \<noteq> None \<and> \<not> (\<exists>c \<in> set (cars s). Some (c_id c) = cid)
                         then (Inl ForeignKeyViolation, s1)
                       else (Inr (), s1\<lparr>bookings := bookings s @
                               [\<lparr>b_id = new_id, b_user_id = uid, b_car_id = cid,
                                 b_travel_date = d\<rparr>]\<rparr>))))"

section \<open>The handlers\<close>

subsection \<open>authenticateToken\<close>

text \<open>
  \<^verbatim>\<open>authHeader && authHeader.split(' ')[1]\<close>: \<open>None\<close> is \<^verbatim>\<open>undefined\<close>; an empty
  header is itself the (falsy) result.
\<close>

definition header_token :: "string option \<Rightarrow> string option" where
  "header_token authHeader =
     (case authHeader of
        None \<Rightarrow> None
      | Some h \<Rightarrow>
          if h = [] then Some []
          else (case split_on (CHR '' '') h of
                  _ # t # _ \<Rightarrow> Some t
                | _ \<Rightarrow> None))"

text \<open>
  The middleware either answers itself (\<open>Inl\<close>) or calls \<^verbatim>\<open>next()\<close> with the decoded
  payload in \<^verbatim>\<open>req.user\<close> (\<open>Inr\<close>). \<open>secret\<close> is \<^verbatim>\<open>process.env.JWT_SECRET\<close>.
\<close>

definition authenticateToken :: "lib \<Rightarrow> string option \<Rightarrow> nat \<Rightarrow> request \<Rightarrow> response + claims" where
  "authenticateToken L secret clock req =
     (case header_token (authorization req) of
        None \<Rightarrow> Inl (401, ErrorBody ''Token missing'')
      | Some token \<Rightarrow>
          if token = [] then Inl (401, ErrorBody ''Token missing'')
          else (case jwt_verify L token secret clock of
                  Inl err \<Rightarrow> Inl (403, ErrorBody ''Invalid or expired token'')
                | Inr user \<Rightarrow> Inr user))"

subsection \<open>POST /register\<close>

definition post_register :: "lib \<Rightarrow> nat \<Rightarrow> request \<Rightarrow> store \<Rightarrow> response \<times> store" where
  "post_register L entropy req s =
     (let name = field (body req) ''name'';
          email = field (body req) ''email'';
          password = field (body req) ''password''
      in if \<not> truthy name \<or> \<not> truthy email \<or> \<not> truthy password
         then ((400, ErrorBody ''Name, email and password are required''), s)
         else (case bcrypt_hash L password 10 entropy of
                 None \<Rightarrow> ((500, ErrorBody ''Server error during registration''), s)
               | Some hashedPassword \<Rightarrow>
                  (case insert_user L name email hashedPassword s of
                     (Inl err, s') \<Rightarrow> ((500, ErrorBody ''Server error during registration''), s')
                   | (Inr _, s') \<Rightarrow> ((201, MessageBody ''User registered successfully''), s'))))"

subsection \<open>POST /login\<close>

definition post_login :: "lib \<Rightarrow> string option \<Rightarrow> nat \<Rightarrow> request \<Rightarrow> store \<Rightarrow> response \<times> store" where
  "post_login L secret clock req s =
     (let email = field (body req) ''email'';
          password = field (body req) ''password''
      in if \<not> truthy email \<or> \<not> truthy password
         then ((400, ErrorBody ''Email and password are required''), s)
         else (case select_users_by_email L email s of
                 Inl err \<Rightarrow> ((500, ErrorBody ''Server error during login''), s)
               | Inr [] \<Rightarrow> ((403, ErrorBody ''Invalid credentials''), s)
               | Inr (user # _) \<Rightarrow>
                  (case bcrypt_compare L password (u_password user) of
                     None \<Rightarrow> ((500, ErrorBody ''Server error during login''), s)
                   | Some validPassword \<Rightarrow>
                       if \<not> validPassword then ((403, ErrorBody ''Invalid credentials''), s)
                       else (case jwt_sign L
                                    \<lparr>payload_id = JNum (of_int (u_id user)),
                                     payload_email = (case u_email user of
                                                        None \<Rightarrow> JNull
                                                      | Some e \<Rightarrow> JStr e)\<rparr>
                                    secret ''1h'' clock of
                               None \<Rightarrow> ((500, ErrorBody ''Server error during login''), s)
                             | Some token \<Rightarrow> ((200, TokenBody token), s)))))"

subsection \<open>GET /cars, GET /cars/:id, POST /cars\<close>

definition get_cars :: "store \<Rightarrow> response \<times> store" where
  "get_cars s = ((200, CarsBody (select_cars s)), s)"

definition get_cars_id :: "lib \<Rightarrow> request \<Rightarrow> store \<Rightarrow> response \<times> store" where
  "get_cars_id L req s =
     (case select_cars_by_id L (JStr (params_id req)) s of
        Inl err \<Rightarrow> ((500, ErrorBody ''Error fetching car''), s)
      | Inr [] \<Rightarrow> ((404, ErrorBody ''Car not found''), s)
      | Inr (car # _) \<Rightarrow> ((200, CarBody car), s))"

definition post_cars :: "lib \<Rightarrow> request \<Rightarrow> store \<Rightarrow> response \<times> store" where
  "post_cars L req s =
     (let name = field (body req) ''name'';
          details = field (body req) ''details'';
          price = field (body req) ''price''
      in if \<not> truthy name \<or> \<not> truthy details \<or> \<not> truthy price
         then ((400, ErrorBody ''Name, details and price are required''), s)
         else (case insert_car L name details price s of
                 (Inl err, s') \<Rightarrow> ((500, ErrorBody ''Error adding car''), s')
               | (Inr _, s') \<Rightarrow> ((201, MessageBody ''Car added successfully''), s')))"

subsection \<open>GET /bookings, GET /bookings/:id, POST /bookings\<close>

definition get_bookings :: "lib \<Rightarrow> string option \<Rightarrow> nat \<Rightarrow> request \<Rightarrow> store \<Rightarrow> response \<times> store" where
  "get_bookings L secret clock req s =
     (case authenticateToken L secret clock req of
        Inl denied \<Rightarrow> (denied, s)
      | Inr user \<Rightarrow>
         (case select_bookings_of_user L (claim_id user) s of
            Inl err \<Rightarrow> ((500, ErrorBody ''Error fetching bookings''), s)
          | Inr rows \<Rightarrow> ((200, BookingsBody rows), s)))"

definition get_bookings_id :: "lib \<Rightarrow> string option \<Rightarrow> nat \<Rightarrow> request \<Rightarrow> store \<Rightarrow> response \<times> store" where
  "get_bookings_id L secret clock req s =
     (case authenticateToken L secret clock req of
        Inl denied \<Rightarrow> (denied, s)
      | Inr user \<Rightarrow>
         (case select_booking_of_user L (JStr (params_id req)) (claim_id user) s of
            Inl err \<Rightarrow> ((500, ErrorBody ''Error fetching booking''), s)
          | Inr [] \<Rightarrow> ((404, ErrorBody ''Booking not found''), s)
          | Inr (row # _) \<Rightarrow> ((200, BookingBody row), s)))"

definition post_bookings :: "lib \<Rightarrow> string option \<Rightarrow> nat \<Rightarrow> request \<Rightarrow> store \<Rightarrow> response \<times> store" where
  "post_bookings L secret clock req s =
     (case authenticateToken L secret clock req of
        Inl denied \<Rightarrow> (denied, s)
      | Inr user \<Rightarrow>
         (let car_id = field (body req) ''car_id'';
              travel_date = field (body req) ''travel_date''
          in if \<not> truthy car_id \<or> \<not> truthy travel_date
             then ((400, ErrorBody ''car_id and travel_date are required''), s)
             else (case select_cars_by_id L car_id s of
                     Inl err \<Rightarrow> ((500, ErrorBody ''Server error during booking''), s)
                   | Inr [] \<Rightarrow> ((404, ErrorBody ''Car not found''), s)
                   | Inr (_ # _) \<Rightarrow>
                      (case insert_booking L (claim_id user) car_id travel_date s of
                         (Inl err, s') \<Rightarrow> ((500, ErrorBody ''Server error during booking''), s')
                       | (Inr _, s') \<Rightarrow> ((201, MessageBody ''Booking created successfully''), s')))))"

section \<open>Requests in sequence\<close>

text \<open>
  What the router does with the eight routes, and a sequence of requests served one
  after the other. The clock and the entropy of a call come with it. Each handler runs
  to its response before the next request is served: requests that overlap at an
  \<^verbatim>\<open>await\<close> are not modelled.
\<close>

datatype call =
    PostRegister nat request
  | PostLogin nat request
  | GetCars
  | GetCarsId request
  | PostCars request
  | GetBookings nat request
  | GetBookingsId nat request
  | PostBookings nat request

fun serve :: "lib \<Rightarrow> string option \<Rightarrow> call \<Rightarrow> store \<Rightarrow> response \<times> store" where
  "serve L secret (PostRegister entropy req) s = post_register L entropy req s"
| "serve L secret (PostLogin clock req) s = post_login L secret clock req s"
| "serve L secret GetCars s = get_cars s"
| "serve L secret (GetCarsId req) s = get_cars_id L req s"
| "serve L secret (PostCars req) s = post_cars L req s"
| "serve L secret (GetBookings clock req) s = get_bookings L secret clock req s"
| "serve L secret (GetBookingsId clock req) s = get_bookings_id L secret clock req s"
| "serve L secret (PostBookings clock req) s = post_bookings L secret clock req s"

fun serve_all :: "lib \<Rightarrow> string option \<Rightarrow> call list \<Rightarrow> store \<Rightarrow> response list \<times> store" where
  "serve_all L secret [] s = ([], s)"
| "serve_all L secret (c # cs) s =
     (case serve L secret c s of
        (r, s') \<Rightarrow> (case serve_all L secret cs s' of (rs, s'') \<Rightarrow> (r # rs, s'')))"

text \<open>
  The id the store reads from the token of a request, and, for a sequence of requests,
  these ids for the \<^verbatim>\<open>POST /bookings\<close> requests that are answered 201, in order.
\<close>

definition token_owner :: "lib \<Rightarrow> string option \<Rightarrow> nat \<Rightarrow> request \<Rightarrow> int option" where
  "token_owner L secret clock req =
     (case authenticateToken L secret clock req of
        Inl denied \<Rightarrow> None
      | Inr user \<Rightarrow> (case pg_int4 L (claim_id user) of Inl err \<Rightarrow> None | Inr uid \<Rightarrow> uid))"

fun owners :: "lib \<Rightarrow> string option \<Rightarrow> call list \<Rightarrow> store \<Rightarrow> int option list" where
  "owners L secret [] s = []"
| "owners L secret (c # cs) s =
     (case c of
        PostBookings clock req \<Rightarrow>
          (if fst (fst (post_bookings L secret clock req s)) = 201
           then [token_owner L secret clock req] else [])
      | _ \<Rightarrow> [])
     @ owners L secret cs (snd (serve L secret c s))"

section \<open>What the schema keeps true\<close>

text \<open>
  Primary keys are distinct and behind their sequence, emails are unique, and every
  reference of a booking names a row.
\<close>

definition keys_ok :: "store \<Rightarrow> bool" where
  "keys_ok s =
     (distinct (map u_id (users s)) \<and> distinct (map c_id (cars s))
      \<and> distinct (map b_id (bookings s))
      \<and> (\<forall>u \<in> set (users s). u_id u < users_id_seq s)
      \<and> (\<forall>c \<in> set (cars s). c_id c < cars_id_seq s)
      \<and> (\<forall>b \<in> set (bookings s). b_id b < bookings_id_seq s))"

definition emails_ok :: "store \<Rightarrow> bool" where
  "emails_ok s =
     (\<forall>u \<in> set (users s). \<forall>u' \<in> set (users s).
        u_email u \<noteq> None \<and> u_email u = u_email u' \<longrightarrow> u = u')"

definition refs_ok :: "store \<Rightarrow> bool" where
  "refs_ok s =
     (\<forall>b \<in> set (bookings s).
        (\<forall>uid. b_user_id b = Some uid \<longrightarrow> (\<exists>u \<in> set (users s). u_id u = uid))
      \<and> (\<forall>cid. b_car_id b = Some cid \<longrightarrow> (\<exists>c \<in> set (cars s). c_id c = cid)))"

definition store_ok :: "store \<Rightarrow> bool" where
  "store_ok s = (keys_ok s \<and> emails_ok s \<and> refs_ok s)"

section \<open>What is assumed of jsonwebtoken\<close>

text \<open>
  Modelled from the spec: \<^verbatim>\<open>jsonwebtoken\<close>'s \<^verbatim>\<open>sign\<close> and \<^verbatim>\<open>verify\<close> are not in the
  repository. The spec (4.3) has \<^verbatim>\<open>issue\<close> embed the claims and an expiry exactly one hour
  after issuance under the server's secret, and \<^verbatim>\<open>verify\<close> return the claims or fail once
  the token has expired. For the option \<^verbatim>\<open>expiresIn: '1h'\<close> that is: a token signed at
  second \<open>t\<close> is a non-empty word without blanks, and under the same secret it verifies
  to the signed payload with \<open>iat = t\<close> and \<open>exp = t + 3600\<close> at every second before
  \<open>exp\<close>, and fails as expired from second \<open>exp\<close> on.
\<close>

definition jwt_spec :: "lib \<Rightarrow> bool" where
  "jwt_spec L =
     (\<forall>p secret t token.
        jwt_sign L p secret ''1h'' t = Some token \<longrightarrow>
          token \<noteq> [] \<and> CHR '' '' \<notin> set token
          \<and> (\<forall>clock. jwt_verify L token secret clock =
                (if clock < t + 3600
                 then Inr \<lparr>claim_id = payload_id p, claim_email = payload_email p,
                           claim_iat = t, claim_exp = t + 3600\<rparr>
                 else Inl TokenExpiredError)))"

section \<open>What is assumed of bcryptjs\<close>


section \<open>An instance of the packages\<close>

text \<open>
  One small executable value of \<open>lib\<close>, on which the handlers can be run on concrete
  requests. Parameters convert as \<^verbatim>\<open>pg\<close> and PostgreSQL convert the common cases
  (decimal integers, ISO dates, strings without NUL, null), and \<^verbatim>\<open>bcryptjs\<close> is followed
  in what it accepts (strings only) and reads (the first 72 characters of a password);
  digests and tokens are stand-ins for the real encodings: a digest is what was read of
  the plaintext behind a salt, and a token names one of two accounts and its time of
  issue.
\<close>

fun decimal :: "nat \<Rightarrow> string \<Rightarrow> nat option" where
  "decimal acc [] = Some acc"
| "decimal acc (c # cs) =
     (if 48 \<le> (of_char c :: nat) \<and> (of_char c :: nat) \<le> 57
      then decimal (10 * acc + ((of_char c :: nat) - 48)) cs
      else None)"

definition parse_nat :: "string \<Rightarrow> nat option" where
  "parse_nat t = (if t = [] then None else decimal 0 t)"

definition demo_int4 :: "jsval \<Rightarrow> sql_error + int option" where
  "demo_int4 v =
     (case v of
        JUndefined \<Rightarrow> Inr None
      | JNull \<Rightarrow> Inr None
      | JNum r \<Rightarrow>
          if r = of_int \<lfloor>r\<rfloor> \<and> - int4_max - 1 \<le> \<lfloor>r\<rfloor> \<and> \<lfloor>r\<rfloor> \<le> int4_max
          then Inr (Some \<lfloor>r\<rfloor>) else Inl InvalidTextRepresentation
      | JStr t \<Rightarrow>
         (case parse_nat t of
            None \<Rightarrow> Inl InvalidTextRepresentation
          | Some n \<Rightarrow> if int n \<le> int4_max then Inr (Some (int n))
                      else Inl InvalidTextRepresentation)
      | _ \<Rightarrow> Inl InvalidTextRepresentation)"

definition demo_numeric :: "jsval \<Rightarrow> sql_error + rat option" where
  "demo_numeric v =
     (case v of
        JUndefined \<Rightarrow> Inr None
      | JNull \<Rightarrow> Inr None
      | JNum r \<Rightarrow> Inr (Some r)
      | JStr t \<Rightarrow>
         (case parse_nat t of
            None \<Rightarrow> Inl InvalidTextRepresentation
          | Some n \<Rightarrow> Inr (Some (of_nat n)))
      | _ \<Rightarrow> Inl InvalidTextRepresentation)"

definition demo_date :: "jsval \<Rightarrow> sql_error + sql_date option" where
  "demo_date v =
     (case v of
        JUndefined \<Rightarrow> Inr None
      | JNull \<Rightarrow> Inr None
      | JStr t \<Rightarrow>
          if length t = 10 \<and> t ! 4 = CHR ''-'' \<and> t ! 7 = CHR ''-''
          then (case (parse_nat (take 4 t), parse_nat (take 2 (drop 5 t)), parse_nat (drop 8 t)) of
                  (Some y, Some m, Some d) \<Rightarrow>
                    if 1 \<le> m \<and> m \<le> 12 \<and> 1 \<le> d \<and> d \<le> 31 then Inr (Some (int y, int m, int d))
                    else Inl InvalidTextRepresentation
                | _ \<Rightarrow> Inl InvalidTextRepresentation)
          else Inl InvalidTextRepresentation
      | _ \<Rightarrow> Inl InvalidTextRepresentation)"

definition demo_text :: "jsval \<Rightarrow> sql_error + string option" where
  "demo_text v =
     (case v of
        JUndefined \<Rightarrow> Inr None
      | JNull \<Rightarrow> Inr None
      | JStr t \<Rightarrow> if CHR 0x00 \<in> set t then Inl CharacterNotInRepertoire else Inr (Some t)
      | JBool b \<Rightarrow> Inr (Some (if b then ''true'' else ''false''))
      | _ \<Rightarrow> Inr (Some ''[value]''))"

definition demo_hash :: "jsval \<Rightarrow> nat \<Rightarrow> nat \<Rightarrow> string option" where
  "demo_hash password rounds entropy =
     (case password of
        JStr p \<Rightarrow> Some (replicate (entropy mod 3) (CHR ''.'') @ CHR ''$'' # take 72 p)
      | _ \<Rightarrow> None)"

definition demo_compare :: "jsval \<Rightarrow> string option \<Rightarrow> bool option" where
  "demo_compare password digest =
     (case (password, digest) of
        (JStr p, Some d) \<Rightarrow> Some (dropWhile (\<lambda>c. c = CHR ''.'') d = CHR ''$'' # take 72 p)
      | _ \<Rightarrow> None)"

definition ana :: jwt_payload where
  "ana = \<lparr>payload_id = JNum 1, payload_email = JStr ''ana@x.com''\<rparr>"

definition bob :: jwt_payload where
  "bob = \<lparr>payload_id = JNum 2, payload_email = JStr ''bob@x.com''\<rparr>"

definition demo_sign :: "jwt_payload \<Rightarrow> string option \<Rightarrow> string \<Rightarrow> nat \<Rightarrow> string option" where
  "demo_sign p secret expiresIn clock =
     (if secret = Some ''s3cret'' \<and> expiresIn = ''1h'' \<and> (p = ana \<or> p = bob)
      then Some ((if p = ana then CHR ''a'' else CHR ''b'') # replicate clock (CHR ''x''))
      else None)"

definition demo_verify :: "string \<Rightarrow> string option \<Rightarrow> nat \<Rightarrow> jwt_error + claims" where
  "demo_verify token secret clock =
     (case token of
        [] \<Rightarrow> Inl JsonWebTokenError
      | c # xs \<Rightarrow>
          if secret = Some ''s3cret'' \<and> (c = CHR ''a'' \<or> c = CHR ''b'')
             \<and> xs = replicate (length xs) (CHR ''x'')
          then if clock < length xs + 3600
               then (let p = (if c = CHR ''a'' then ana else bob)
                     in Inr \<lparr>claim_id = payload_id p, claim_email = payload_email p,
                             claim_iat = length xs, claim_exp = length xs + 3600\<rparr>)
               else Inl TokenExpiredError
          else Inl JsonWebTokenError)"

definition demo_lib :: lib where
  "demo_lib = \<lparr>bcrypt_hash = demo_hash, bcrypt_compare = demo_compare,
                jwt_sign = demo_sign, jwt_verify = demo_verify,
                pg_text = demo_text, pg_int4 = demo_int4,
                pg_numeric = demo_numeric, pg_date = demo_date\<rparr>"

text \<open>
  A store with two accounts and one car, and the same store after Bob has booked the car.
  Ana's digest is \<open>secret\<close> behind a one-character salt.
\<close>

definition ana_row :: user_row where
  "ana_row = \<lparr>u_id = 1, u_name = Some ''Ana'', u_email = Some ''ana@x.com'',
              u_password = Some ''.$secret''\<rparr>"

definition bob_row :: user_row where
  "bob_row = \<lparr>u_id = 2, u_name = Some ''Bob'', u_email = Some ''bob@x.com'',
              u_password = Some ''$hunter2''\<rparr>"

definition civic :: car_row where
  "civic = \<lparr>c_id = 1, c_name = Some ''Civic'', c_details = Some ''sedan'',
            c_price = Some 20000\<rparr>"

definition demo_store :: store where
  "demo_store = \<lparr>users = [ana_row, bob_row], cars = [civic], bookings = [],
                 users_id_seq = 3, cars_id_seq = 2, bookings_id_seq = 1\<rparr>"

definition booked_store :: store where
  "booked_store = demo_store\<lparr>bookings_id_seq := 2, bookings :=
     [\<lparr>b_id = 1, b_user_id = Some 2, b_car_id = Some 1,
       b_travel_date = Some (2025, 1, 1)\<rparr>]\<rparr>"



text \<open>The stores of the scenario of the spec: after Ana's registration, after the car.\<close>

definition signed_up :: store where
  "signed_up = empty_store\<lparr>users_id_seq := 2, users := [ana_row]\<rparr>"

definition stocked :: store where
  "stocked = signed_up\<lparr>cars_id_seq := 2, cars := [civic]\<rparr>"

section \<open>Properties\<close>

subsection \<open>The invariant of the store\<close>

lemma store_ok_empty: "store_ok empty_store"
  by (simp add: store_ok_def keys_ok_def emails_ok_def refs_ok_def empty_store_def)

lemma insert_user_failed:
  "insert_user L name email h s = (Inl err, s') \<Longrightarrow>
   s' = s \<or> s' = s\<lparr>users_id_seq := users_id_seq s + 1\<rparr>"
  by (auto simp: insert_user_def Let_def split: sum.splits if_splits)

lemma insert_user_done:
  "insert_user L name email h s = (Inr x, s') \<Longrightarrow>
   (\<exists>n e. (\<exists>t. pg_text L email = Inr t \<and> varchar 100 t = Inr e)
      \<and> s' = s\<lparr>users_id_seq := users_id_seq s + 1,
               users := users s @ [\<lparr>u_id = users_id_seq s, u_name = n,
                                     u_email = e, u_password = Some h\<rparr>]\<rparr>
      \<and> (e \<noteq> None \<longrightarrow> (\<forall>u \<in> set (users s). u_email u \<noteq> e)))
   \<and> (\<forall>u \<in> set (users s). u_id u \<noteq> users_id_seq s)"
  by (auto simp: insert_user_def Let_def split: sum.splits if_splits)

lemma insert_car_failed:
  "insert_car L name details price s = (Inl err, s') \<Longrightarrow>
   s' = s \<or> s' = s\<lparr>cars_id_seq := cars_id_seq s + 1\<rparr>"
  by (auto simp: insert_car_def Let_def split: if_splits sum.splits)

lemma insert_car_done:
  "insert_car L name details price s = (Inr x, s') \<Longrightarrow>
   (\<exists>n d p. s' = s\<lparr>cars_id_seq := cars_id_seq s + 1,
          cars := cars s @ [\<lparr>c_id = cars_id_seq s, c_name = n,
                              c_details = d, c_price = p\<rparr>]\<rparr>)
   \<and> (\<forall>c \<in> set (cars s). c_id c \<noteq> cars_id_seq s)"
  by (auto simp: insert_car_def Let_def split: if_splits sum.splits)

lemma insert_booking_failed:
  "insert_booking L user_id car_id travel_date s = (Inl err, s') \<Longrightarrow>
   s' = s \<or> s' = s\<lparr>bookings_id_seq := bookings_id_seq s + 1\<rparr>"
  by (simp add: insert_booking_def Let_def split: if_splits sum.splits)

lemma insert_booking_done:
  "insert_booking L user_id car_id travel_date s = (Inr x, s') \<Longrightarrow>
   (\<exists>uid cid d. s' = s\<lparr>bookings_id_seq := bookings_id_seq s + 1,
          bookings := bookings s @ [\<lparr>b_id = bookings_id_seq s, b_user_id = uid,
                                      b_car_id = cid, b_travel_date = d\<rparr>]\<rparr>
      \<and> (\<forall>k. uid = Some k \<longrightarrow> (\<exists>u \<in> set (users s). u_id u = k))
      \<and> (\<forall>k. cid = Some k \<longrightarrow> (\<exists>c \<in> set (cars s). c_id c = k)))
   \<and> (\<forall>b \<in> set (bookings s). b_id b \<noteq> bookings_id_seq s)"
  by (auto simp: insert_booking_def Let_def split: if_splits sum.splits)

lemma users_seq_bump_ok:
  "store_ok s \<Longrightarrow> store_ok (s\<lparr>users_id_seq := users_id_seq s + 1\<rparr>)"
  by (fastforce simp: store_ok_def keys_ok_def emails_ok_def refs_ok_def)

lemma cars_seq_bump_ok:
  "store_ok s \<Longrightarrow> store_ok (s\<lparr>cars_id_seq := cars_id_seq s + 1\<rparr>)"
  by (fastforce simp: store_ok_def keys_ok_def emails_ok_def refs_ok_def)

lemma bookings_seq_bump_ok:
  "store_ok s \<Longrightarrow> store_ok (s\<lparr>bookings_id_seq := bookings_id_seq s + 1\<rparr>)"
  by (fastforce simp: store_ok_def keys_ok_def emails_ok_def refs_ok_def)

lemma add_user_keys:
  assumes "keys_ok s" and "u_id row = users_id_seq s"
  shows "keys_ok (s\<lparr>users_id_seq := users_id_seq s + 1, users := users s @ [row]\<rparr>)"
  using assms by (auto simp: keys_ok_def)

lemma add_user_emails:
  assumes "emails_ok s"
    and "u_email row \<noteq> None \<longrightarrow> (\<forall>u \<in> set (users s). u_email u \<noteq> u_email row)"
  shows "emails_ok (s\<lparr>users_id_seq := users_id_seq s + 1, users := users s @ [row]\<rparr>)"
  unfolding emails_ok_def
proof (intro ballI impI)
  fix u u'
  assume u: "u \<in> set (users (s\<lparr>users_id_seq := users_id_seq s + 1, users := users s @ [row]\<rparr>))"
    and u': "u' \<in> set (users (s\<lparr>users_id_seq := users_id_seq s + 1, users := users s @ [row]\<rparr>))"
    and eq: "u_email u \<noteq> None \<and> u_email u = u_email u'"
  from u u' have "u \<in> set (users s) \<or> u = row" and "u' \<in> set (users s) \<or> u' = row"
    by auto
  then consider "u \<in> set (users s)" "u' \<in> set (users s)" | "u = row" "u' = row"
    | "u \<in> set (users s)" "u' = row" | "u = row" "u' \<in> set (users s)"
    by blast
  then show "u = u'"
  proof cases
    case 1
    with assms(1) eq show ?thesis unfolding emails_ok_def by blast
  next
    case 2
    then show ?thesis by simp
  next
    case 3
    with assms(2) eq show ?thesis by auto
  next
    case 4
    with assms(2) eq show ?thesis by (metis)
  qed
qed

lemma add_user_refs:
  assumes "refs_ok s"
  shows "refs_ok (s\<lparr>users_id_seq := users_id_seq s + 1, users := users s @ [row]\<rparr>)"
  using assms by (auto simp: refs_ok_def)

lemma add_user_ok:
  assumes "store_ok s" and "u_id row = users_id_seq s"
    and "u_email row \<noteq> None \<longrightarrow> (\<forall>u \<in> set (users s). u_email u \<noteq> u_email row)"
  shows "store_ok (s\<lparr>users_id_seq := users_id_seq s + 1, users := users s @ [row]\<rparr>)"
  using assms add_user_keys add_user_emails add_user_refs
  by (simp add: store_ok_def)

lemma add_car_ok:
  assumes "store_ok s" and "c_id row = cars_id_seq s"
  shows "store_ok (s\<lparr>cars_id_seq := cars_id_seq s + 1, cars := cars s @ [row]\<rparr>)"
proof -
  let ?s' = "s\<lparr>cars_id_seq := cars_id_seq s + 1, cars := cars s @ [row]\<rparr>"
  from assms(1) have k: "keys_ok s" and e: "emails_ok s" and r: "refs_ok s"
    by (simp_all add: store_ok_def)
  have "keys_ok ?s'"
    using k assms(2) by (auto simp: keys_ok_def)
  moreover have "emails_ok ?s'"
    using e by (simp add: emails_ok_def)
  moreover have "refs_ok ?s'"
    using r by (auto simp: refs_ok_def)
  ultimately show ?thesis by (simp add: store_ok_def)
qed

lemma add_booking_ok:
  assumes "store_ok s" and "b_id row = bookings_id_seq s"
    and "\<forall>k. b_user_id row = Some k \<longrightarrow> (\<exists>u \<in> set (users s). u_id u = k)"
    and "\<forall>k. b_car_id row = Some k \<longrightarrow> (\<exists>c \<in> set (cars s). c_id c = k)"
  shows "store_ok (s\<lparr>bookings_id_seq := bookings_id_seq s + 1,
                     bookings := bookings s @ [row]\<rparr>)"
proof -
  let ?s' = "s\<lparr>bookings_id_seq := bookings_id_seq s + 1, bookings := bookings s @ [row]\<rparr>"
  from assms(1) have k: "keys_ok s" and e: "emails_ok s" and r: "refs_ok s"
    by (simp_all add: store_ok_def)
  have "keys_ok ?s'"
    using k assms(2) by (auto simp: keys_ok_def)
  moreover have "emails_ok ?s'"
    using e by (simp add: emails_ok_def)
  moreover have "refs_ok ?s'"
    using r assms(3,4) by (simp add: refs_ok_def)
  ultimately show ?thesis by (simp add: store_ok_def)
qed

lemma insert_user_ok:
  assumes "store_ok s" and "insert_user L name email h s = (r, s')"
  shows "store_ok s'"
proof (cases r)
  case (Inl err)
  with assms(2) have "s' = s \<or> s' = s\<lparr>users_id_seq := users_id_seq s + 1\<rparr>"
    using insert_user_failed by blast
  with assms(1) users_seq_bump_ok show ?thesis by blast
next
  case (Inr x)
  from Inr assms(2) insert_user_done [of L name email h s x s']
  obtain n e where
    s': "s' = s\<lparr>users_id_seq := users_id_seq s + 1,
               users := users s @ [\<lparr>u_id = users_id_seq s, u_name = n,
                                     u_email = e, u_password = Some h\<rparr>]\<rparr>"
    and mail: "e \<noteq> None \<longrightarrow> (\<forall>u \<in> set (users s). u_email u \<noteq> e)"
    by blast
  have "store_ok (s\<lparr>users_id_seq := users_id_seq s + 1,
               users := users s @ [\<lparr>u_id = users_id_seq s, u_name = n,
                                     u_email = e, u_password = Some h\<rparr>]\<rparr>)"
    using assms(1) mail by (intro add_user_ok) simp_all
  with s' show ?thesis by simp
qed

lemma insert_car_ok:
  assumes "store_ok s" and "insert_car L name details price s = (r, s')"
  shows "store_ok s'"
proof (cases r)
  case (Inl err)
  with assms(2) have "s' = s \<or> s' = s\<lparr>cars_id_seq := cars_id_seq s + 1\<rparr>"
    using insert_car_failed by blast
  with assms(1) cars_seq_bump_ok show ?thesis by blast
next
  case (Inr x)
  from Inr assms(2) insert_car_done [of L name details price s x s']
  obtain n d p where s': "s' = s\<lparr>cars_id_seq := cars_id_seq s + 1,
          cars := cars s @ [\<lparr>c_id = cars_id_seq s, c_name = n,
                              c_details = d, c_price = p\<rparr>]\<rparr>"
    by blast
  have "store_ok (s\<lparr>cars_id_seq := cars_id_seq s + 1,
          cars := cars s @ [\<lparr>c_id = cars_id_seq s, c_name = n,
                              c_details = d, c_price = p\<rparr>]\<rparr>)"
    using assms(1) by (intro add_car_ok) simp_all
  with s' show ?thesis by simp
qed

lemma insert_booking_keeps_ok:
  assumes "store_ok s" and "insert_booking L user_id car_id travel_date s = (r, s')"
  shows "store_ok s'"
proof (cases r)
  case (Inl err)
  with assms(2) have "s' = s \<or> s' = s\<lparr>bookings_id_seq := bookings_id_seq s + 1\<rparr>"
    using insert_booking_failed by blast
  with assms(1) bookings_seq_bump_ok show ?thesis by blast
next
  case (Inr x)
  from Inr assms(2) insert_booking_done [of L user_id car_id travel_date s x s']
  obtain uid cid d where s': "s' = s\<lparr>bookings_id_seq := bookings_id_seq s + 1,
          bookings := bookings s @ [\<lparr>b_id = bookings_id_seq s, b_user_id = uid,
                                      b_car_id = cid, b_travel_date = d\<rparr>]\<rparr>"
    and usr: "\<forall>k. uid = Some k \<longrightarrow> (\<exists>u \<in> set (users s). u_id u = k)"
    and car: "\<forall>k. cid = Some k \<longrightarrow> (\<exists>c \<in> set (cars s). c_id c = k)"
    by blast
  have "store_ok (s\<lparr>bookings_id_seq := bookings_id_seq s + 1,
          bookings := bookings s @ [\<lparr>b_id = bookings_id_seq s, b_user_id = uid,
                                      b_car_id = cid, b_travel_date = d\<rparr>]\<rparr>)"
    using assms(1) usr car by (intro add_booking_ok) simp_all
  with s' show ?thesis by simp
qed

lemma post_register_ok: "store_ok s \<Longrightarrow> store_ok (snd (post_register L entropy req s))"
  by (auto simp: post_register_def Let_def split: option.splits prod.splits sum.splits
           dest: insert_user_ok)

lemma post_login_ok: "snd (post_login L secret clock req s) = s"
  by (simp add: post_login_def Let_def split: list.splits option.splits sum.splits)

lemma post_cars_ok: "store_ok s \<Longrightarrow> store_ok (snd (post_cars L req s))"
  by (auto simp: post_cars_def Let_def split: prod.splits sum.splits dest: insert_car_ok)

lemma reads_keep_store:
  "snd (get_cars s) = s"
  "snd (get_cars_id L req s) = s"
  "snd (get_bookings L secret clock req s) = s"
  "snd (get_bookings_id L secret clock req s) = s"
  by (simp_all add: get_cars_def get_cars_id_def get_bookings_def get_bookings_id_def
        split: sum.splits list.splits)

lemma post_bookings_keeps_ok: "store_ok s \<Longrightarrow> store_ok (snd (post_bookings L secret clock req s))"
  by (auto simp: post_bookings_def Let_def split: prod.splits sum.splits list.splits
           dest: insert_booking_keeps_ok)

text \<open>
  Every store that requests lead to from the empty one satisfies \<open>store_ok\<close>: booking
  ids are distinct and behind their sequence, and no booking refers to a missing user
  or car.
\<close>

lemma serve_ok: "store_ok s \<Longrightarrow> store_ok (snd (serve L secret c s))"
  by (cases c)
     (simp_all add: post_register_ok post_login_ok post_cars_ok reads_keep_store
        post_bookings_keeps_ok)

lemma serve_all_ok: "store_ok s \<Longrightarrow> store_ok (snd (serve_all L secret cs s))"
proof (induction cs arbitrary: s)
  case Nil
  then show ?case by simp
next
  case (Cons c cs)
  from Cons.prems have "store_ok (snd (serve L secret c s))" by (rule serve_ok)
  from Cons.IH [OF this] show ?case
    by (auto split: prod.splits)
qed

lemma reachable_store_ok: "store_ok (snd (serve_all L secret cs empty_store))"
  using store_ok_empty by (rule serve_all_ok)

lemma store_ok_bookings:
  assumes "store_ok s"
  shows "distinct (map b_id (bookings s))"
    and "\<forall>b \<in> set (bookings s). b_id b < bookings_id_seq s"
  using assms by (simp_all add: store_ok_def keys_ok_def)

subsection \<open>The scenario of the spec\<close>

text \<open>
  Register, log in, list no bookings, add a car, book it, list the booking (spec, 8),
  run on the instance of the packages.
\<close>

lemma demo_lib_fields:
  "bcrypt_hash demo_lib = demo_hash" "bcrypt_compare demo_lib = demo_compare"
  "jwt_sign demo_lib = demo_sign" "jwt_verify demo_lib = demo_verify"
  "pg_text demo_lib = demo_text" "pg_int4 demo_lib = demo_int4"
  "pg_numeric demo_lib = demo_numeric" "pg_date demo_lib = demo_date"
  by (simp_all add: demo_lib_def)

lemma scenario:
  "fst (serve_all demo_lib (Some ''s3cret'')
     [PostRegister 7 \<lparr>authorization = None, params_id = [],
        body = [(''name'', JStr ''Ana''), (''email'', JStr ''ana@x.com''),
                (''password'', JStr ''secret'')]\<rparr>,
      PostLogin 2 \<lparr>authorization = None, params_id = [],
        body = [(''email'', JStr ''ana@x.com''), (''password'', JStr ''secret'')]\<rparr>,
      GetBookings 3 \<lparr>authorization = Some ''Bearer axx'', params_id = [], body = []\<rparr>,
      PostCars \<lparr>authorization = None, params_id = [],
        body = [(''name'', JStr ''Civic''), (''details'', JStr ''sedan''),
                (''price'', JNum 20000)]\<rparr>,
      PostBookings 4 \<lparr>authorization = Some ''Bearer axx'', params_id = [],
        body = [(''car_id'', JNum 1), (''travel_date'', JStr ''2025-01-01'')]\<rparr>,
      GetBookings 5 \<lparr>authorization = Some ''Bearer axx'', params_id = [], body = []\<rparr>]
     empty_store)
   = [(201, MessageBody ''User registered successfully''),
      (200, TokenBody ''axx''),
      (200, BookingsBody []),
      (201, MessageBody ''Car added successfully''),
      (201, MessageBody ''Booking created successfully''),
      (200, BookingsBody [\<lparr>v_id = 1, v_travel_date = Some (2025, 1, 1),
                            v_car_name = Some ''Civic'', v_car_details = Some ''sedan'',
                            v_car_price = Some 20000\<rparr>])]"
proof -
  let ?token = "\<lparr>authorization = Some ''Bearer axx'', params_id = [], body = []\<rparr>"
  let ?booked = "stocked\<lparr>bookings_id_seq := 2, bookings :=
     [\<lparr>b_id = 1, b_user_id = Some 1, b_car_id = Some 1,
       b_travel_date = Some (2025, 1, 1)\<rparr>]\<rparr>"
  have ana_auth: "authenticateToken demo_lib (Some ''s3cret'') clock
        \<lparr>authorization = Some ''Bearer axx'', params_id = [], body = b\<rparr>
      = Inr \<lparr>claim_id = JNum 1, claim_email = JStr ''ana@x.com'',
              claim_iat = 2, claim_exp = 3602\<rparr>" if "clock < 3602" for clock b
    using that
    by (simp add: authenticateToken_def header_token_def demo_lib_fields demo_verify_def ana_def)
  have one: "post_register demo_lib 7 \<lparr>authorization = None, params_id = [],
        body = [(''name'', JStr ''Ana''), (''email'', JStr ''ana@x.com''),
                (''password'', JStr ''secret'')]\<rparr> empty_store
      = ((201, MessageBody ''User registered successfully''), signed_up)"
    by (simp add: post_register_def field_def insert_user_def varchar_def int4_max_def
          empty_store_def signed_up_def ana_row_def demo_lib_fields demo_hash_def demo_text_def)
  have two: "post_login demo_lib (Some ''s3cret'') 2 \<lparr>authorization = None, params_id = [],
        body = [(''email'', JStr ''ana@x.com''), (''password'', JStr ''secret'')]\<rparr> signed_up
      = ((200, TokenBody ''axx''), signed_up)"
    by (simp add: post_login_def field_def select_users_by_email_def signed_up_def
          empty_store_def ana_row_def demo_lib_fields demo_text_def demo_compare_def demo_sign_def
          ana_def eval_nat_numeral)
  have three: "get_bookings demo_lib (Some ''s3cret'') 3 ?token signed_up
      = ((200, BookingsBody []), signed_up)"
    by (simp add: get_bookings_def ana_auth select_bookings_of_user_def signed_up_def
          empty_store_def demo_lib_fields demo_int4_def int4_max_def)
  have four: "post_cars demo_lib \<lparr>authorization = None, params_id = [],
        body = [(''name'', JStr ''Civic''), (''details'', JStr ''sedan''),
                (''price'', JNum 20000)]\<rparr> signed_up
      = ((201, MessageBody ''Car added successfully''), stocked)"
    by (simp add: post_cars_def field_def insert_car_def varchar_def int4_max_def
          stocked_def signed_up_def empty_store_def civic_def demo_lib_fields demo_numeric_def
          demo_text_def)
  have five: "post_bookings demo_lib (Some ''s3cret'') 4
        \<lparr>authorization = Some ''Bearer axx'', params_id = [],
         body = [(''car_id'', JNum 1), (''travel_date'', JStr ''2025-01-01'')]\<rparr> stocked
      = ((201, MessageBody ''Booking created successfully''), ?booked)"
    by (simp add: post_bookings_def ana_auth field_def select_cars_by_id_def insert_booking_def
          int4_max_def stocked_def signed_up_def empty_store_def civic_def ana_row_def
          demo_lib_fields demo_int4_def demo_date_def parse_nat_def)
  have six: "get_bookings demo_lib (Some ''s3cret'') 5 ?token ?booked
      = ((200, BookingsBody [\<lparr>v_id = 1, v_travel_date = Some (2025, 1, 1),
                            v_car_name = Some ''Civic'', v_car_details = Some ''sedan'',
                            v_car_price = Some 20000\<rparr>]), ?booked)"
    by (simp add: get_bookings_def ana_auth select_bookings_of_user_def car_view_def
          stocked_def signed_up_def empty_store_def civic_def demo_lib_fields demo_int4_def
          int4_max_def)
  show ?thesis
    by (simp add: one two three four five six)
qed

subsection \<open>The token gate\<close>

lemma authenticateToken_missing:
  "header_token (authorization req) = None \<or> header_token (authorization req) = Some [] \<Longrightarrow>
   authenticateToken L secret clock req = Inl (401, ErrorBody ''Token missing'')"
  by (auto simp: authenticateToken_def)

lemma authenticateToken_invalid:
  "header_token (authorization req) = Some t \<Longrightarrow> t \<noteq> [] \<Longrightarrow>
   jwt_verify L t secret clock = Inl e \<Longrightarrow>
   authenticateToken L secret clock req = Inl (403, ErrorBody ''Invalid or expired token'')"
  by (simp add: authenticateToken_def)

lemma authenticateToken_params:
  "authenticateToken L secret clock (req\<lparr>params_id := p\<rparr>)
   = authenticateToken L secret clock req"
  by (simp add: authenticateToken_def)

lemma denied_routes:
  assumes "authenticateToken L secret clock req = Inl denied"
  shows "get_bookings L secret clock req s = (denied, s)"
    and "get_bookings_id L secret clock req s = (denied, s)"
    and "post_bookings L secret clock req s = (denied, s)"
  using assms by (simp_all add: get_bookings_def get_bookings_id_def post_bookings_def)

text \<open>
  C4. On each of the three protected routes, a request from which no token can be read
  (no \<^verbatim>\<open>Authorization\<close> header, an empty one, or one whose second blank-separated
  word is missing or empty) is answered 401, and a request whose token the verifier
  rejects is answered 403 with one and the same body whatever the verifier's error is;
  the store is not touched.
\<close>

theorem protected_routes_401_403:
  "(header_token (authorization req) = None \<or> header_token (authorization req) = Some [] \<longrightarrow>
      get_bookings L secret clock req s = ((401, ErrorBody ''Token missing''), s)
    \<and> get_bookings_id L secret clock req s = ((401, ErrorBody ''Token missing''), s)
    \<and> post_bookings L secret clock req s = ((401, ErrorBody ''Token missing''), s))
   \<and> (\<forall>t e. header_token (authorization req) = Some t \<and> t \<noteq> []
            \<and> jwt_verify L t secret clock = Inl e \<longrightarrow>
      get_bookings L secret clock req s = ((403, ErrorBody ''Invalid or expired token''), s)
    \<and> get_bookings_id L secret clock req s = ((403, ErrorBody ''Invalid or expired token''), s)
    \<and> post_bookings L secret clock req s = ((403, ErrorBody ''Invalid or expired token''), s))"
proof (intro conjI impI allI)
  assume "header_token (authorization req) = None \<or> header_token (authorization req) = Some []"
  then have a: "authenticateToken L secret clock req = Inl (401, ErrorBody ''Token missing'')"
    by (rule authenticateToken_missing)
  show "get_bookings L secret clock req s = ((401, ErrorBody ''Token missing''), s)"
    and "get_bookings_id L secret clock req s = ((401, ErrorBody ''Token missing''), s)"
    and "post_bookings L secret clock req s = ((401, ErrorBody ''Token missing''), s)"
    using denied_routes [OF a] by simp_all
next
  fix t e
  assume "header_token (authorization req) = Some t \<and> t \<noteq> []
          \<and> jwt_verify L t secret clock = Inl e"
  then have a: "authenticateToken L secret clock req
                = Inl (403, ErrorBody ''Invalid or expired token'')"
    using authenticateToken_invalid by blast
  show "get_bookings L secret clock req s = ((403, ErrorBody ''Invalid or expired token''), s)"
    using denied_routes [OF a] by simp
  show "get_bookings_id L secret clock req s
        = ((403, ErrorBody ''Invalid or expired token''), s)"
    using denied_routes [OF a] by simp
  show "post_bookings L secret clock req s = ((403, ErrorBody ''Invalid or expired token''), s)"
    using denied_routes [OF a] by simp
qed

text \<open>
  A request without the header is answered 401; one whose token has expired (issued at
  second 2, presented at second 4000) is answered 403.
\<close>

theorem protected_routes_401_403_witness:
  "get_bookings demo_lib (Some ''s3cret'') 10
       \<lparr>authorization = None, params_id = ''1'', body = []\<rparr> empty_store
     = ((401, ErrorBody ''Token missing''), empty_store)
   \<and> post_bookings demo_lib (Some ''s3cret'') 4000
       \<lparr>authorization = Some ''Bearer axx'', params_id = ''1'', body = []\<rparr> empty_store
     = ((403, ErrorBody ''Invalid or expired token''), empty_store)"
  using protected_routes_401_403
          [of "\<lparr>authorization = None, params_id = ''1'', body = []\<rparr>"
              demo_lib "Some ''s3cret''" 10 empty_store]
        protected_routes_401_403
          [of "\<lparr>authorization = Some ''Bearer axx'', params_id = ''1'', body = []\<rparr>"
              demo_lib "Some ''s3cret''" 4000 empty_store]
  by (simp add: header_token_def demo_lib_def demo_verify_def)

subsection \<open>Booking a car that does not exist\<close>

lemma select_cars_by_id_none:
  "pg_int4 L v = Inr k \<Longrightarrow> \<forall>c \<in> set (cars s). Some (c_id c) \<noteq> k \<Longrightarrow>
   select_cars_by_id L v s = Inr []"
  by (simp add: select_cars_by_id_def filter_empty_conv)

text \<open>
  C1, as stated, fails: the presence check comes before the lookup. Ana, with a valid
  token, asks for car 9999, which does not exist, and gives no \<open>travel_date\<close>: the
  answer is 400, not 404. So it is when she asks, with a date, for car 0, which does
  not exist either.
\<close>

theorem missing_car_without_date_400:
  "authenticateToken demo_lib (Some ''s3cret'') 10
     \<lparr>authorization = Some ''Bearer axx'', params_id = [], body = [(''car_id'', JNum 9999)]\<rparr>
   = Inr \<lparr>claim_id = JNum 1, claim_email = JStr ''ana@x.com'', claim_iat = 2, claim_exp = 3602\<rparr>
   \<and> select_cars_by_id demo_lib (JNum 9999) demo_store = Inr []
   \<and> post_bookings demo_lib (Some ''s3cret'') 10
     \<lparr>authorization = Some ''Bearer axx'', params_id = [], body = [(''car_id'', JNum 9999)]\<rparr>
     demo_store
   = ((400, ErrorBody ''car_id and travel_date are required''), demo_store)
   \<and> select_cars_by_id demo_lib (JNum 0) demo_store = Inr []
   \<and> post_bookings demo_lib (Some ''s3cret'') 10
     \<lparr>authorization = Some ''Bearer axx'', params_id = [],
      body = [(''car_id'', JNum 0), (''travel_date'', JStr ''2025-01-01'')]\<rparr>
     demo_store
   = ((400, ErrorBody ''car_id and travel_date are required''), demo_store)"
  by (simp add: post_bookings_def authenticateToken_def header_token_def demo_lib_def
        demo_verify_def ana_def select_cars_by_id_def demo_int4_def int4_max_def
        demo_store_def civic_def field_def)

text \<open>
  C1, amended. For every authenticated create-booking request whose \<open>car_id\<close> the store
  reads as an integer (or \<open>NULL\<close>) that is no car's id, the store is left as it was, so
  no booking row is created; and when \<open>car_id\<close> and \<open>travel_date\<close> are both truthy the
  answer is 404 \<open>Car not found\<close>.
\<close>

theorem missing_car_404:
  assumes "authenticateToken L secret clock req = Inr user"
    and "pg_int4 L (field (body req) ''car_id'') = Inr k"
    and "\<forall>c \<in> set (cars s). Some (c_id c) \<noteq> k"
  shows "snd (post_bookings L secret clock req s) = s
       \<and> (truthy (field (body req) ''car_id'') \<and> truthy (field (body req) ''travel_date'') \<longrightarrow>
            fst (post_bookings L secret clock req s) = (404, ErrorBody ''Car not found''))"
proof -
  have "select_cars_by_id L (field (body req) ''car_id'') s = Inr []"
    using assms(2,3) by (rule select_cars_by_id_none)
  then show ?thesis
    using assms(1) by (simp add: post_bookings_def Let_def)
qed

theorem missing_car_404_witness:
  "post_bookings demo_lib (Some ''s3cret'') 10
     \<lparr>authorization = Some ''Bearer axx'', params_id = [],
      body = [(''car_id'', JNum 9999), (''travel_date'', JStr ''2025-01-01'')]\<rparr> demo_store
   = ((404, ErrorBody ''Car not found''), demo_store)"
proof -
  let ?req = "\<lparr>authorization = Some ''Bearer axx'', params_id = [],
      body = [(''car_id'', JNum 9999), (''travel_date'', JStr ''2025-01-01'')]\<rparr>"
  have a: "authenticateToken demo_lib (Some ''s3cret'') 10 ?req
           = Inr \<lparr>claim_id = JNum 1, claim_email = JStr ''ana@x.com'',
                   claim_iat = 2, claim_exp = 3602\<rparr>"
    by (simp add: authenticateToken_def header_token_def demo_lib_def demo_verify_def ana_def)
  have b: "pg_int4 demo_lib (field (body ?req) ''car_id'') = Inr (Some 9999)"
    by (simp add: demo_lib_def demo_int4_def field_def int4_max_def)
  have c: "\<forall>c \<in> set (cars demo_store). Some (c_id c) \<noteq> Some 9999"
    by (simp add: demo_store_def civic_def)
  show ?thesis
    using missing_car_404 [OF a b c] by (simp add: field_def prod_eq_iff)
qed

subsection \<open>Whose booking it is\<close>

lemma insert_booking_rows:
  "insert_booking L user_id car_id travel_date s = (r, s') \<Longrightarrow>
     bookings s' = bookings s
   \<or> (\<exists>uid row. pg_int4 L user_id = Inr uid \<and> bookings s' = bookings s @ [row]
         \<and> b_user_id row = uid)"
  by (auto simp: insert_booking_def Let_def split: sum.splits if_splits)

lemma post_bookings_rows:
  "bookings (snd (post_bookings L secret clock req s)) = bookings s
   \<or> (\<exists>user uid row. authenticateToken L secret clock req = Inr user
         \<and> pg_int4 L (claim_id user) = Inr uid
         \<and> bookings (snd (post_bookings L secret clock req s)) = bookings s @ [row]
         \<and> b_user_id row = uid)"
proof (cases "authenticateToken L secret clock req")
  case (Inl denied)
  then show ?thesis by (simp add: post_bookings_def)
next
  case (Inr user)
  let ?car = "field (body req) ''car_id''" and ?date = "field (body req) ''travel_date''"
  obtain r s' where ins: "insert_booking L (claim_id user) ?car ?date s = (r, s')"
    by (cases "insert_booking L (claim_id user) ?car ?date s")
  from insert_booking_rows [OF ins] Inr ins show ?thesis
    by (auto simp: post_bookings_def Let_def split: sum.splits list.splits)
qed

lemma post_bookings_reads_two_fields:
  assumes "authorization req' = authorization req"
    and "field (body req') ''car_id'' = field (body req) ''car_id''"
    and "field (body req') ''travel_date'' = field (body req) ''travel_date''"
  shows "post_bookings L secret clock req' s = post_bookings L secret clock req s"
proof -
  have "authenticateToken L secret clock req' = authenticateToken L secret clock req"
    using assms(1) by (simp add: authenticateToken_def)
  then show ?thesis
    using assms(2,3)
    by (cases "authenticateToken L secret clock req") (simp_all add: post_bookings_def)
qed

lemma other_routes_keep_bookings:
  "bookings (snd (post_register L entropy req s)) = bookings s"
  "bookings (snd (post_login L secret clock req s)) = bookings s"
  "bookings (snd (get_cars s)) = bookings s"
  "bookings (snd (get_cars_id L req s)) = bookings s"
  "bookings (snd (post_cars L req s)) = bookings s"
  "bookings (snd (get_bookings L secret clock req s)) = bookings s"
  "bookings (snd (get_bookings_id L secret clock req s)) = bookings s"
  by (auto simp: post_register_def post_login_def get_cars_def get_cars_id_def post_cars_def
        get_bookings_def get_bookings_id_def insert_user_def insert_car_def Let_def
        split: sum.splits list.splits option.splits if_splits)

lemma authenticateToken_denied:
  "authenticateToken L secret clock req = Inl denied \<Longrightarrow> fst denied = 401 \<or> fst denied = 403"
  by (auto simp: authenticateToken_def split: option.splits if_splits sum.splits)

lemma post_bookings_201:
  assumes "fst (fst (post_bookings L secret clock req s)) = 201"
  shows "\<exists>row. bookings (snd (post_bookings L secret clock req s)) = bookings s @ [row]
           \<and> b_user_id row = token_owner L secret clock req"
proof (cases "authenticateToken L secret clock req")
  case (Inl denied)
  with assms authenticateToken_denied [OF Inl] show ?thesis
    by (simp add: post_bookings_def)
next
  case (Inr user)
  let ?car = "field (body req) ''car_id''" and ?date = "field (body req) ''travel_date''"
  obtain r s' where ins: "insert_booking L (claim_id user) ?car ?date s = (r, s')"
    by (cases "insert_booking L (claim_id user) ?car ?date s")
  from assms Inr ins obtain x where r: "r = Inr x"
    and s': "snd (post_bookings L secret clock req s) = s'"
    by (cases r) (auto simp: post_bookings_def Let_def split: sum.splits list.splits if_splits)
  from ins r have "\<exists>uid. pg_int4 L (claim_id user) = Inr uid
      \<and> (\<exists>row. bookings s' = bookings s @ [row] \<and> b_user_id row = uid)"
    by (auto simp: insert_booking_def Let_def split: sum.splits if_splits)
  with Inr s' show ?thesis
    by (auto simp: token_owner_def)
qed

lemma post_bookings_not_201:
  assumes "fst (fst (post_bookings L secret clock req s)) \<noteq> 201"
  shows "bookings (snd (post_bookings L secret clock req s)) = bookings s"
proof (cases "authenticateToken L secret clock req")
  case (Inl denied)
  then show ?thesis by (simp add: post_bookings_def)
next
  case (Inr user)
  let ?car = "field (body req) ''car_id''" and ?date = "field (body req) ''travel_date''"
  obtain r s' where ins: "insert_booking L (claim_id user) ?car ?date s = (r, s')"
    by (cases "insert_booking L (claim_id user) ?car ?date s")
  show ?thesis
  proof (cases r)
    case (Inl err)
    with ins insert_booking_failed have "bookings s' = bookings s" by fastforce
    with Inr ins Inl show ?thesis
      by (auto simp: post_bookings_def Let_def split: sum.splits list.splits)
  next
    case (Inr x)
    with assms \<open>authenticateToken L secret clock req = Inr user\<close> ins show ?thesis
      by (auto simp: post_bookings_def Let_def split: sum.splits list.splits if_splits)
  qed
qed

lemma serve_owner:
  "map b_user_id (bookings (snd (serve L secret c s)))
   = map b_user_id (bookings s)
     @ (case c of
          PostBookings clock req \<Rightarrow>
            (if fst (fst (post_bookings L secret clock req s)) = 201
             then [token_owner L secret clock req] else [])
        | _ \<Rightarrow> [])"
proof (cases c)
  case (PostBookings clock req)
  show ?thesis
  proof (cases "fst (fst (post_bookings L secret clock req s)) = 201")
    case True
    from post_bookings_201 [OF True] PostBookings True show ?thesis by auto
  next
    case False
    from post_bookings_not_201 [OF False] PostBookings False show ?thesis by simp
  qed
qed (simp_all add: other_routes_keep_bookings)

lemma every_booking_owned_by_its_token:
  "map b_user_id (bookings (snd (serve_all L secret cs s)))
   = map b_user_id (bookings s) @ owners L secret cs s"
proof (induction cs arbitrary: s)
  case Nil
  then show ?case by simp
next
  case (Cons c cs)
  have "snd (serve_all L secret (c # cs) s) = snd (serve_all L secret cs (snd (serve L secret c s)))"
    by (simp split: prod.splits)
  then show ?case
    using Cons.IH [of "snd (serve L secret c s)"] serve_owner [of L secret c s]
    by simp
qed

text \<open>
  C2. A \<^verbatim>\<open>POST /bookings\<close> request either leaves the bookings as they were or appends one
  row, and the \<open>user_id\<close> of that row is what the store reads from the \<open>id\<close> of the
  payload the verifier decoded from the request's own token. Of the body only \<open>car_id\<close>
  and \<open>travel_date\<close> are read: two requests with the same header that agree on these two
  fields have the same outcome, whatever else, a \<open>user_id\<close> included, their bodies carry.
  And over any sequence of requests to any routes, the \<open>user_id\<close>s of the bookings are
  those there were, followed by the token ids of the create-booking requests answered
  201, one for one: no other row is ever created.
\<close>

theorem booking_owner_is_token_id:
  "(bookings (snd (post_bookings L secret clock req s)) = bookings s
    \<or> (\<exists>user uid row. authenticateToken L secret clock req = Inr user
         \<and> pg_int4 L (claim_id user) = Inr uid
         \<and> bookings (snd (post_bookings L secret clock req s)) = bookings s @ [row]
         \<and> b_user_id row = uid))
   \<and> (authorization req' = authorization req
        \<and> field (body req') ''car_id'' = field (body req) ''car_id''
        \<and> field (body req') ''travel_date'' = field (body req) ''travel_date'' \<longrightarrow>
      post_bookings L secret clock req' s = post_bookings L secret clock req s)
   \<and> map b_user_id (bookings (snd (serve_all L secret cs s)))
     = map b_user_id (bookings s) @ owners L secret cs s"
  using post_bookings_rows [of L secret clock req s]
        post_bookings_reads_two_fields [of req' req L secret clock s]
        every_booking_owned_by_its_token [of L secret cs s]
  by simp

text \<open>Ana books the car and names Bob (\<open>user_id: 2\<close>) in the body: the row is hers.\<close>

theorem booking_owner_is_token_id_witness:
  "post_bookings demo_lib (Some ''s3cret'') 10
     \<lparr>authorization = Some ''Bearer axx'', params_id = [],
      body = [(''car_id'', JNum 1), (''travel_date'', JStr ''2025-01-01''),
              (''user_id'', JNum 2)]\<rparr> demo_store
   = post_bookings demo_lib (Some ''s3cret'') 10
     \<lparr>authorization = Some ''Bearer axx'', params_id = [],
      body = [(''car_id'', JNum 1), (''travel_date'', JStr ''2025-01-01'')]\<rparr> demo_store
   \<and> bookings (snd (post_bookings demo_lib (Some ''s3cret'') 10
     \<lparr>authorization = Some ''Bearer axx'', params_id = [],
      body = [(''car_id'', JNum 1), (''travel_date'', JStr ''2025-01-01''),
              (''user_id'', JNum 2)]\<rparr> demo_store))
   = [\<lparr>b_id = 1, b_user_id = Some 1, b_car_id = Some 1, b_travel_date = Some (2025, 1, 1)\<rparr>]
   \<and> owners demo_lib (Some ''s3cret'')
       [GetCars, PostBookings 10
         \<lparr>authorization = Some ''Bearer axx'', params_id = [],
          body = [(''car_id'', JNum 1), (''travel_date'', JStr ''2025-01-01''),
                  (''user_id'', JNum 2)]\<rparr>] demo_store
     = [Some 1]"
proof -
  let ?req = "\<lparr>authorization = Some ''Bearer axx'', params_id = [],
      body = [(''car_id'', JNum 1), (''travel_date'', JStr ''2025-01-01'')]\<rparr>"
  let ?req' = "\<lparr>authorization = Some ''Bearer axx'', params_id = [],
      body = [(''car_id'', JNum 1), (''travel_date'', JStr ''2025-01-01''),
              (''user_id'', JNum 2)]\<rparr>"
  have run: "post_bookings demo_lib (Some ''s3cret'') 10 ?req demo_store
     = ((201, MessageBody ''Booking created successfully''),
        demo_store\<lparr>bookings_id_seq := 2, bookings :=
          [\<lparr>b_id = 1, b_user_id = Some 1, b_car_id = Some 1,
            b_travel_date = Some (2025, 1, 1)\<rparr>]\<rparr>)"
    by (simp add: post_bookings_def authenticateToken_def header_token_def demo_lib_def
        demo_verify_def ana_def select_cars_by_id_def demo_int4_def int4_max_def
        demo_store_def civic_def field_def insert_booking_def demo_date_def parse_nat_def
        ana_row_def bob_row_def)
  have same: "authorization ?req' = authorization ?req"
    "field (body ?req') ''car_id'' = field (body ?req) ''car_id''"
    "field (body ?req') ''travel_date'' = field (body ?req) ''travel_date''"
    by (simp_all add: field_def)
  have empty: "bookings demo_store = []"
    by (simp add: demo_store_def)
  from booking_owner_is_token_id
            [where L = demo_lib and secret = "Some ''s3cret''" and clock = 10 and req = ?req
               and s = demo_store and req' = ?req'
               and cs = "[GetCars, PostBookings 10 ?req']"]
       same
  have eq: "post_bookings demo_lib (Some ''s3cret'') 10 ?req' demo_store
            = post_bookings demo_lib (Some ''s3cret'') 10 ?req demo_store"
    and trace: "map b_user_id (bookings (snd (serve_all demo_lib (Some ''s3cret'')
                  [GetCars, PostBookings 10 ?req'] demo_store)))
                = map b_user_id (bookings demo_store)
                  @ owners demo_lib (Some ''s3cret'') [GetCars, PostBookings 10 ?req'] demo_store"
    by simp_all
  have "snd (serve_all demo_lib (Some ''s3cret'') [GetCars, PostBookings 10 ?req'] demo_store)
        = snd (post_bookings demo_lib (Some ''s3cret'') 10 ?req demo_store)"
    by (simp add: get_cars_def eq split: prod.splits)
  with trace empty run
  have "owners demo_lib (Some ''s3cret'') [GetCars, PostBookings 10 ?req'] demo_store = [Some 1]"
    by simp
  with eq run show ?thesis by simp
qed

subsection \<open>Reading another user's booking\<close>

lemma select_booking_of_user_none:
  assumes "pg_int4 L booking_id = Inr k" and "pg_int4 L user_id = Inr uid"
    and "\<forall>b \<in> set (bookings s). Some (b_id b) = k \<longrightarrow> b_user_id b \<noteq> uid"
  shows "select_booking_of_user L booking_id user_id s = Inr []"
  using assms by (auto simp: select_booking_of_user_def)

lemma get_bookings_id_not_found:
  assumes "authenticateToken L secret clock req = Inr user"
    and "pg_int4 L (JStr (params_id req)) = Inr k" and "pg_int4 L (claim_id user) = Inr uid"
    and "\<forall>b \<in> set (bookings s). Some (b_id b) = k \<longrightarrow> b_user_id b \<noteq> uid"
  shows "get_bookings_id L secret clock req s = ((404, ErrorBody ''Booking not found''), s)"
  using assms(1) select_booking_of_user_none [OF assms(2,3,4)]
  by (simp add: get_bookings_id_def)

text \<open>
  C3. Let the booking ids be distinct (the primary key: \<open>store_ok_bookings\<close>), \<open>B\<close> a
  booking of user \<open>a\<close>, and the caller's token carry an id the store reads as something
  other than \<open>a\<close>. Then \<^verbatim>\<open>GET /bookings/{B.id}\<close> is answered 404 \<open>Booking not found\<close>,
  and that is exactly the outcome of the same caller's request for an id \<open>n\<close> that no
  booking has: never 403.
\<close>

theorem foreign_booking_reads_as_absent:
  assumes pk: "distinct (map b_id (bookings s))"
    and owned: "B \<in> set (bookings s)" "b_user_id B = Some a"
    and caller: "authenticateToken L secret clock req = Inr user"
                "pg_int4 L (claim_id user) = Inr c" "c \<noteq> Some a"
    and path: "pg_int4 L (JStr (params_id req)) = Inr (Some (b_id B))"
    and absent: "pg_int4 L (JStr p) = Inr (Some n)" "\<forall>b \<in> set (bookings s). b_id b \<noteq> n"
  shows "get_bookings_id L secret clock req s = ((404, ErrorBody ''Booking not found''), s)
       \<and> get_bookings_id L secret clock (req\<lparr>params_id := p\<rparr>) s
         = get_bookings_id L secret clock req s"
proof -
  have only: "\<forall>b \<in> set (bookings s). Some (b_id b) = Some (b_id B) \<longrightarrow> b_user_id b \<noteq> c"
  proof (intro ballI impI)
    fix b assume "b \<in> set (bookings s)" and "Some (b_id b) = Some (b_id B)"
    with pk owned(1) have "b = B"
      by (simp add: distinct_map inj_on_def)
    with owned(2) caller(3) show "b_user_id b \<noteq> c" by auto
  qed
  have mine: "get_bookings_id L secret clock req s = ((404, ErrorBody ''Booking not found''), s)"
    using caller(1) path caller(2) only by (rule get_bookings_id_not_found)
  have "get_bookings_id L secret clock (req\<lparr>params_id := p\<rparr>) s
        = ((404, ErrorBody ''Booking not found''), s)"
    using absent caller(1,2)
    by (intro get_bookings_id_not_found [where k = "Some n" and uid = c and user = user])
       (auto simp: authenticateToken_params)
  with mine show ?thesis by simp
qed

text \<open>
  Bob owns booking 1. Ana is answered 404 for it, as she is for booking 77, which does
  not exist; Bob himself is answered 200.
\<close>

theorem foreign_booking_reads_as_absent_witness:
  "get_bookings_id demo_lib (Some ''s3cret'') 10
     \<lparr>authorization = Some ''Bearer axx'', params_id = ''1'', body = []\<rparr> booked_store
   = ((404, ErrorBody ''Booking not found''), booked_store)
   \<and> get_bookings_id demo_lib (Some ''s3cret'') 10
     \<lparr>authorization = Some ''Bearer axx'', params_id = ''77'', body = []\<rparr> booked_store
   = ((404, ErrorBody ''Booking not found''), booked_store)
   \<and> fst (fst (get_bookings_id demo_lib (Some ''s3cret'') 10
     \<lparr>authorization = Some ''Bearer bxx'', params_id = ''1'', body = []\<rparr> booked_store))
   = 200"
proof -
  let ?req = "\<lparr>authorization = Some ''Bearer axx'', params_id = ''1'', body = []\<rparr>"
  let ?B = "\<lparr>b_id = 1, b_user_id = Some 2, b_car_id = Some 1,
             b_travel_date = Some (2025, 1, 1)\<rparr>"
  have pk: "distinct (map b_id (bookings booked_store))"
    by (simp add: booked_store_def)
  have owned: "?B \<in> set (bookings booked_store)" "b_user_id ?B = Some 2"
    by (simp_all add: booked_store_def)
  have caller: "authenticateToken demo_lib (Some ''s3cret'') 10 ?req
           = Inr \<lparr>claim_id = JNum 1, claim_email = JStr ''ana@x.com'',
                   claim_iat = 2, claim_exp = 3602\<rparr>"
    by (simp add: authenticateToken_def header_token_def demo_lib_def demo_verify_def ana_def)
  have cid: "pg_int4 demo_lib (claim_id \<lparr>claim_id = JNum 1, claim_email = JStr ''ana@x.com'',
                 claim_iat = 2, claim_exp = 3602\<rparr>) = Inr (Some 1)"
    by (simp add: demo_lib_def demo_int4_def int4_max_def)
  have ne: "Some (1::int) \<noteq> Some 2" by simp
  have path: "pg_int4 demo_lib (JStr (params_id ?req)) = Inr (Some (b_id ?B))"
    by (simp add: demo_lib_def demo_int4_def parse_nat_def int4_max_def)
  have absent: "pg_int4 demo_lib (JStr ''77'') = Inr (Some 77)"
    "\<forall>b \<in> set (bookings booked_store). b_id b \<noteq> 77"
    by (simp_all add: demo_lib_def demo_int4_def parse_nat_def int4_max_def booked_store_def)
  have owner: "fst (fst (get_bookings_id demo_lib (Some ''s3cret'') 10
     \<lparr>authorization = Some ''Bearer bxx'', params_id = ''1'', body = []\<rparr> booked_store))
   = 200"
    by (simp add: get_bookings_id_def authenticateToken_def header_token_def demo_lib_def
          demo_verify_def bob_def ana_def select_booking_of_user_def demo_int4_def parse_nat_def
          int4_max_def booked_store_def demo_store_def civic_def ana_row_def bob_row_def)
  show ?thesis
    using foreign_booking_reads_as_absent [OF pk owned caller cid ne path absent] owner
    by simp
qed

subsection \<open>Registering an email twice\<close>

lemma insert_user_duplicate:
  assumes "u \<in> set (users s)" and "u_email u = Some e"
    and "pg_text L email = Inr (Some t)" and "varchar 100 (Some t) = Inr (Some e)"
  shows "\<exists>err s'. insert_user L name email h s = (Inl err, s') \<and> users s' = users s"
  using assms by (auto simp: insert_user_def Let_def split: sum.splits)

text \<open>
  C5. When some account already has the email the request's \<open>email\<close> denotes (the text
  \<open>t\<close> of the parameter, as the column \<^verbatim>\<open>VARCHAR(100)\<close> keeps it: \<open>t\<close> itself when it has
  at most 100 characters), then for every name and password \<^verbatim>\<open>POST /register\<close> fails:
  the status is 400 or 500, never 201, and the table of users, hence the existing
  account's password hash, is unchanged.
\<close>

theorem duplicate_email_registration_fails:
  assumes "u \<in> set (users s)" and "u_email u = Some e"
    and "pg_text L (field (body req) ''email'') = Inr (Some t)"
    and "varchar 100 (Some t) = Inr (Some e)"
  shows "fst (fst (post_register L entropy req s)) \<noteq> 201
       \<and> (fst (fst (post_register L entropy req s)) = 400
          \<or> fst (fst (post_register L entropy req s)) = 500)
       \<and> users (snd (post_register L entropy req s)) = users s"
proof (cases "\<not> truthy (field (body req) ''name'') \<or> \<not> truthy (field (body req) ''email'')
              \<or> \<not> truthy (field (body req) ''password'')")
  case True
  then show ?thesis by (simp add: post_register_def Let_def)
next
  case False
  show ?thesis
  proof (cases "bcrypt_hash L (field (body req) ''password'') 10 entropy")
    case None
    with False show ?thesis by (simp add: post_register_def Let_def)
  next
    case (Some h)
    from insert_user_duplicate [OF assms, of "field (body req) ''name''" h]
    obtain err s' where
      "insert_user L (field (body req) ''name'') (field (body req) ''email'') h s = (Inl err, s')"
      and "users s' = users s"
      by blast
    with False Some show ?thesis by (simp add: post_register_def Let_def)
  qed
qed

text \<open>Mallory registers with Ana's email: 500, and both rows are as before.\<close>

theorem duplicate_email_registration_fails_witness:
  "post_register demo_lib 7
     \<lparr>authorization = None, params_id = [],
      body = [(''name'', JStr ''Mallory''), (''email'', JStr ''ana@x.com''),
              (''password'', JStr ''other'')]\<rparr> demo_store
   = ((500, ErrorBody ''Server error during registration''), demo_store\<lparr>users_id_seq := 4\<rparr>)
   \<and> users (snd (post_register demo_lib 7
     \<lparr>authorization = None, params_id = [],
      body = [(''name'', JStr ''Mallory''), (''email'', JStr ''ana@x.com''),
              (''password'', JStr ''other'')]\<rparr> demo_store))
   = [ana_row, bob_row]"
proof -
  let ?req = "\<lparr>authorization = None, params_id = [],
      body = [(''name'', JStr ''Mallory''), (''email'', JStr ''ana@x.com''),
              (''password'', JStr ''other'')]\<rparr>"
  have a: "ana_row \<in> set (users demo_store)" by (simp add: demo_store_def)
  have b: "u_email ana_row = Some ''ana@x.com''" by (simp add: ana_row_def)
  have c: "pg_text demo_lib (field (body ?req) ''email'') = Inr (Some ''ana@x.com'')"
    by (simp add: demo_lib_def demo_text_def field_def)
  have d: "varchar 100 (Some ''ana@x.com'') = Inr (Some ''ana@x.com'')"
    by (simp add: varchar_def)
  have run: "post_register demo_lib 7 ?req demo_store
     = ((500, ErrorBody ''Server error during registration''), demo_store\<lparr>users_id_seq := 4\<rparr>)"
    by (simp add: post_register_def field_def demo_lib_def demo_hash_def insert_user_def
          demo_text_def varchar_def int4_max_def demo_store_def ana_row_def bob_row_def)
  show ?thesis
    using duplicate_email_registration_fails [OF a b c d, of 7] run
    by (simp add: demo_store_def)
qed

subsection \<open>From login to the gate\<close>

lemma split_on_no_sep: "sep \<notin> set w \<Longrightarrow> split_on sep w = [w]"
  by (induction w) auto

lemma split_on_append:
  "sep \<notin> set w \<Longrightarrow> split_on sep (w @ sep # rest) = w # split_on sep rest"
  by (induction w) auto

lemma header_token_bearer:
  "CHR '' '' \<notin> set token \<Longrightarrow> header_token (Some (''Bearer '' @ token)) = Some token"
  using split_on_append [of "CHR '' ''" "''Bearer''" token] split_on_no_sep [of "CHR '' ''" token]
  by (simp add: header_token_def)

lemma demo_lib_jwt_spec: "jwt_spec demo_lib"
  by (auto simp: jwt_spec_def demo_lib_def demo_sign_def demo_verify_def ana_def bob_def)

text \<open>
  C6. Let the packages meet \<open>jwt_spec\<close>, and let a login at second \<open>t\<close> that found the
  account \<open>U\<close> answer 200 with a token. Presented as \<^verbatim>\<open>Bearer <token>\<close>, the token passes
  the gate at every second before \<open>t + 3600\<close>, with \<open>U\<close>'s id and email in
  \<^verbatim>\<open>req.user\<close>, issue time \<open>t\<close> and expiry exactly \<open>t + 3600\<close>; from second \<open>t + 3600\<close> on
  the gate answers 403.
\<close>

theorem login_token_round_trip:
  assumes lib: "jwt_spec L"
    and found: "select_users_by_email L (field (body req) ''email'') s = Inr (U # rest)"
    and login: "post_login L secret t req s = ((200, TokenBody token), s')"
    and bearer: "authorization req' = Some (''Bearer '' @ token)"
  shows "\<exists>e. u_email U = Some e
          \<and> (\<forall>clock. authenticateToken L secret clock req' =
               (if clock < t + 3600
                then Inr \<lparr>claim_id = JNum (of_int (u_id U)), claim_email = JStr e,
                          claim_iat = t, claim_exp = t + 3600\<rparr>
                else Inl (403, ErrorBody ''Invalid or expired token'')))"
proof -
  let ?email = "field (body req) ''email''"
  from login found
  have sign: "jwt_sign L \<lparr>payload_id = JNum (of_int (u_id U)),
                 payload_email = (case u_email U of None \<Rightarrow> JNull | Some e \<Rightarrow> JStr e)\<rparr>
               secret ''1h'' t = Some token"
    by (auto simp: post_login_def Let_def split: if_splits option.splits)
  from found obtain e where
    sel: "filter (\<lambda>u. u_email u = Some e) (users s) = U # rest"
    by (auto simp: select_users_by_email_def split: sum.splits option.splits)
  from sel have "U \<in> set (filter (\<lambda>u. u_email u = Some e) (users s))" by simp
  then have mail: "u_email U = Some e" by simp
  from lib sign mail have tok: "token \<noteq> []" "CHR '' '' \<notin> set token"
    and ver: "\<And>clock. jwt_verify L token secret clock =
                (if clock < t + 3600
                 then Inr \<lparr>claim_id = JNum (of_int (u_id U)), claim_email = JStr e,
                           claim_iat = t, claim_exp = t + 3600\<rparr>
                 else Inl TokenExpiredError)"
    unfolding jwt_spec_def by fastforce+
  have "authenticateToken L secret clock req' =
               (if clock < t + 3600
                then Inr \<lparr>claim_id = JNum (of_int (u_id U)), claim_email = JStr e,
                          claim_iat = t, claim_exp = t + 3600\<rparr>
                else Inl (403, ErrorBody ''Invalid or expired token''))" for clock
    using tok ver [of clock] bearer header_token_bearer [OF tok(2)]
    by (simp add: authenticateToken_def)
  with mail show ?thesis by blast
qed

text \<open>
  Ana logs in at second 2. Her token passes the gate at second 3601 and is refused at
  second 3602, its expiry.
\<close>

theorem login_token_round_trip_witness:
  "post_login demo_lib (Some ''s3cret'') 2
     \<lparr>authorization = None, params_id = [],
      body = [(''email'', JStr ''ana@x.com''), (''password'', JStr ''secret'')]\<rparr> demo_store
   = ((200, TokenBody ''axx''), demo_store)
   \<and> authenticateToken demo_lib (Some ''s3cret'') 3601
       \<lparr>authorization = Some ''Bearer axx'', params_id = [], body = []\<rparr>
     = Inr \<lparr>claim_id = JNum 1, claim_email = JStr ''ana@x.com'', claim_iat = 2, claim_exp = 3602\<rparr>
   \<and> authenticateToken demo_lib (Some ''s3cret'') 3602
       \<lparr>authorization = Some ''Bearer axx'', params_id = [], body = []\<rparr>
     = Inl (403, ErrorBody ''Invalid or expired token'')"
proof -
  let ?req = "\<lparr>authorization = None, params_id = [],
      body = [(''email'', JStr ''ana@x.com''), (''password'', JStr ''secret'')]\<rparr>"
  let ?req' = "\<lparr>authorization = Some ''Bearer axx'', params_id = [], body = []\<rparr>"
  have found: "select_users_by_email demo_lib (field (body ?req) ''email'') demo_store
               = Inr (ana_row # [])"
    by (simp add: select_users_by_email_def demo_lib_def demo_text_def field_def demo_store_def
          ana_row_def bob_row_def)
  have login: "post_login demo_lib (Some ''s3cret'') 2 ?req demo_store
               = ((200, TokenBody ''axx''), demo_store)"
    by (simp add: post_login_def field_def select_users_by_email_def demo_lib_def demo_text_def
          demo_store_def ana_row_def bob_row_def demo_compare_def demo_sign_def ana_def
          eval_nat_numeral)
  have bearer: "authorization ?req' = Some (''Bearer '' @ ''axx'')" by simp
  from login_token_round_trip [OF demo_lib_jwt_spec found login bearer]
  obtain e where "u_email ana_row = Some e"
    and auth: "\<And>clock. authenticateToken demo_lib (Some ''s3cret'') clock ?req' =
               (if clock < 2 + 3600
                then Inr \<lparr>claim_id = JNum (of_int (u_id ana_row)), claim_email = JStr e,
                          claim_iat = 2, claim_exp = 2 + 3600\<rparr>
                else Inl (403, ErrorBody ''Invalid or expired token''))"
    by blast
  then have "e = ''ana@x.com''"
    by (simp add: ana_row_def)
  with auth [of 3601] auth [of 3602] login show ?thesis
    by (simp add: ana_row_def)
qed

subsection \<open>The password given at registration\<close>







subsection \<open>Failed logins\<close>

lemma login_wrong_password_403:
  assumes "truthy (field (body req) ''email'')" and "truthy (field (body req) ''password'')"
    and "select_users_by_email L (field (body req) ''email'') s = Inr (U # rest)"
    and "bcrypt_compare L (field (body req) ''password'') (u_password U) = Some False"
  shows "post_login L secret clock req s = ((403, ErrorBody ''Invalid credentials''), s)"
  using assms by (simp add: post_login_def Let_def)

text \<open>
  C8. The handler answers the same 403 \<open>Invalid credentials\<close> on its two credential
  branches, but a third outcome tells them apart. For every login request whose \<open>email\<close>
  and \<open>password\<close> are both truthy: when the email matches no user the answer is 403,
  whatever the password; when it matches a user and \<^verbatim>\<open>bcrypt.compare\<close> resolves to false
  the answer is that same 403; but when it matches a user and \<^verbatim>\<open>bcrypt.compare\<close> rejects,
  as it does for a password that is not a string, the \<^verbatim>\<open>catch\<close> branch answers 500
  \<open>Server error during login\<close>. So the same wrong password is answered 403 with an
  unknown email and 500 with a known one.
\<close>

theorem login_failure_tells_known_email:
  assumes "truthy (field (body req) ''email'')" and "truthy (field (body req) ''password'')"
  shows "(select_users_by_email L (field (body req) ''email'') s = Inr [] \<longrightarrow>
            post_login L secret clock req s = ((403, ErrorBody ''Invalid credentials''), s))
       \<and> (\<forall>U rest. select_users_by_email L (field (body req) ''email'') s = Inr (U # rest)
            \<and> bcrypt_compare L (field (body req) ''password'') (u_password U) = Some False \<longrightarrow>
            post_login L secret clock req s = ((403, ErrorBody ''Invalid credentials''), s))
       \<and> (\<forall>U rest. select_users_by_email L (field (body req) ''email'') s = Inr (U # rest)
            \<and> bcrypt_compare L (field (body req) ''password'') (u_password U) = None \<longrightarrow>
            post_login L secret clock req s = ((500, ErrorBody ''Server error during login''), s))"
  using assms by (simp add: post_login_def Let_def)

text \<open>
  The password is the number 123, which is nobody's. With an email that matches no user
  the answer is 403; with Ana's email it is 500. With the string \<open>guess\<close> for a password
  both are answered 403.
\<close>

theorem login_failure_tells_known_email_witness:
  "post_login demo_lib (Some ''s3cret'') 2
     \<lparr>authorization = None, params_id = [],
      body = [(''email'', JStr ''nobody@x.com''), (''password'', JNum 123)]\<rparr> demo_store
   = ((403, ErrorBody ''Invalid credentials''), demo_store)
   \<and> post_login demo_lib (Some ''s3cret'') 2
     \<lparr>authorization = None, params_id = [],
      body = [(''email'', JStr ''ana@x.com''), (''password'', JNum 123)]\<rparr> demo_store
   = ((500, ErrorBody ''Server error during login''), demo_store)
   \<and> post_login demo_lib (Some ''s3cret'') 2
     \<lparr>authorization = None, params_id = [],
      body = [(''email'', JStr ''nobody@x.com''), (''password'', JStr ''guess'')]\<rparr> demo_store
   = ((403, ErrorBody ''Invalid credentials''), demo_store)
   \<and> post_login demo_lib (Some ''s3cret'') 2
     \<lparr>authorization = None, params_id = [],
      body = [(''email'', JStr ''ana@x.com''), (''password'', JStr ''guess'')]\<rparr> demo_store
   = ((403, ErrorBody ''Invalid credentials''), demo_store)"
proof -
  let ?r1 = "\<lparr>authorization = None, params_id = [],
      body = [(''email'', JStr ''nobody@x.com''), (''password'', JNum 123)]\<rparr>"
  let ?r2 = "\<lparr>authorization = None, params_id = [],
      body = [(''email'', JStr ''ana@x.com''), (''password'', JNum 123)]\<rparr>"
  let ?r3 = "\<lparr>authorization = None, params_id = [],
      body = [(''email'', JStr ''nobody@x.com''), (''password'', JStr ''guess'')]\<rparr>"
  let ?r4 = "\<lparr>authorization = None, params_id = [],
      body = [(''email'', JStr ''ana@x.com''), (''password'', JStr ''guess'')]\<rparr>"
  have t1: "truthy (field (body ?r1) ''email'')" "truthy (field (body ?r1) ''password'')"
    and t2: "truthy (field (body ?r2) ''email'')" "truthy (field (body ?r2) ''password'')"
    and t3: "truthy (field (body ?r3) ''email'')" "truthy (field (body ?r3) ''password'')"
    and t4: "truthy (field (body ?r4) ''email'')" "truthy (field (body ?r4) ''password'')"
    by (simp_all add: field_def)
  have none: "select_users_by_email demo_lib (JStr ''nobody@x.com'') demo_store = Inr []"
    by (simp add: select_users_by_email_def demo_lib_def demo_text_def demo_store_def
          ana_row_def bob_row_def)
  have one: "select_users_by_email demo_lib (JStr ''ana@x.com'') demo_store = Inr [ana_row]"
    by (simp add: select_users_by_email_def demo_lib_def demo_text_def demo_store_def
          ana_row_def bob_row_def)
  have rejects: "bcrypt_compare demo_lib (JNum 123) (u_password ana_row) = None"
    by (simp add: demo_lib_def demo_compare_def)
  have wrong: "bcrypt_compare demo_lib (JStr ''guess'') (u_password ana_row) = Some False"
    by (simp add: demo_lib_def demo_compare_def ana_row_def)
  show ?thesis
    using login_failure_tells_known_email [OF t1, of demo_lib demo_store "Some ''s3cret''" 2]
          login_failure_tells_known_email [OF t2, of demo_lib demo_store "Some ''s3cret''" 2]
          login_failure_tells_known_email [OF t3, of demo_lib demo_store "Some ''s3cret''" 2]
          login_failure_tells_known_email [OF t4, of demo_lib demo_store "Some ''s3cret''" 2]
          none one rejects wrong
    by (simp add: field_def)
qed

text \<open>
  A fourth outcome: when the statement itself fails, as PostgreSQL fails it for an email
  that holds a NUL character, the \<^verbatim>\<open>catch\<close> branch answers 500 before any user is looked at.
\<close>

lemma login_select_fails_500:
  assumes "truthy (field (body req) ''email'')" and "truthy (field (body req) ''password'')"
    and "select_users_by_email L (field (body req) ''email'') s = Inl err"
  shows "post_login L secret clock req s = ((500, ErrorBody ''Server error during login''), s)"
  using assms by (simp add: post_login_def Let_def)

subsection \<open>The same car on the same date\<close>

lemma insert_booking_ok:
  assumes "pg_int4 L user_id = Inr (Some uid)" and "\<exists>u \<in> set (users s). u_id u = uid"
    and "pg_int4 L car_id = Inr (Some k)" and "\<exists>c \<in> set (cars s). c_id c = k"
    and "pg_date L travel_date = Inr d"
    and "\<forall>b \<in> set (bookings s). b_id b < bookings_id_seq s"
    and "bookings_id_seq s \<le> int4_max"
  shows "insert_booking L user_id car_id travel_date s
         = (Inr (), s\<lparr>bookings_id_seq := bookings_id_seq s + 1,
                     bookings := bookings s @
                       [\<lparr>b_id = bookings_id_seq s, b_user_id = Some uid, b_car_id = Some k,
                         b_travel_date = d\<rparr>]\<rparr>)"
  using assms by (auto simp: insert_booking_def Let_def)

lemma select_cars_by_id_some:
  assumes "pg_int4 L car_id = Inr (Some k)" and "\<exists>c \<in> set (cars s). c_id c = k"
  shows "\<exists>c cs. select_cars_by_id L car_id s = Inr (c # cs)"
proof -
  from assms(2) have "filter (\<lambda>c. Some (c_id c) = Some k) (cars s) \<noteq> []"
    by (auto simp: filter_empty_conv)
  then show ?thesis
    using assms(1) by (cases "filter (\<lambda>c. Some (c_id c) = Some k) (cars s)")
       (auto simp: select_cars_by_id_def)
qed

lemma post_bookings_ok:
  assumes "authenticateToken L secret clock req = Inr user"
    and "truthy (field (body req) ''car_id'')" and "truthy (field (body req) ''travel_date'')"
    and "pg_int4 L (claim_id user) = Inr (Some uid)" and "\<exists>u \<in> set (users s). u_id u = uid"
    and "pg_int4 L (field (body req) ''car_id'') = Inr (Some k)"
    and "\<exists>c \<in> set (cars s). c_id c = k"
    and "pg_date L (field (body req) ''travel_date'') = Inr d"
    and "\<forall>b \<in> set (bookings s). b_id b < bookings_id_seq s"
    and "bookings_id_seq s \<le> int4_max"
  shows "post_bookings L secret clock req s
         = ((201, MessageBody ''Booking created successfully''),
            s\<lparr>bookings_id_seq := bookings_id_seq s + 1,
              bookings := bookings s @
                [\<lparr>b_id = bookings_id_seq s, b_user_id = Some uid, b_car_id = Some k,
                  b_travel_date = d\<rparr>]\<rparr>)"
proof -
  from select_cars_by_id_some [OF assms(6,7)]
  obtain c cs where "select_cars_by_id L (field (body req) ''car_id'') s = Inr (c # cs)"
    by blast
  then show ?thesis
    using assms(1,2,3) insert_booking_ok [OF assms(4,5,6,7,8,9,10)]
    by (simp add: post_bookings_def Let_def)
qed

text \<open>
  C9. Take an existing car \<open>k\<close>, a date \<open>d\<close>, and two create-booking requests, each
  carrying truthy \<open>car_id\<close> and \<open>travel_date\<close> that the store reads as \<open>k\<close> and \<open>d\<close>, each
  with a valid token of an existing user (the same user or two). In a store whose
  booking sequence is ahead of every booking id (\<open>store_ok_bookings\<close>) and has two
  values left, the first request is answered 201, the second, run on the store the
  first leaves, is answered 201 as well, and the bookings end with one row for each,
  both for car \<open>k\<close> on date \<open>d\<close>.
\<close>

theorem same_car_same_date_twice:
  assumes car: "\<exists>c \<in> set (cars s). c_id c = k"
    and seq: "\<forall>b \<in> set (bookings s). b_id b < bookings_id_seq s" "bookings_id_seq s < int4_max"
    and first: "authenticateToken L secret t1 req1 = Inr user1"
               "pg_int4 L (claim_id user1) = Inr (Some uid1)" "\<exists>u \<in> set (users s). u_id u = uid1"
               "truthy (field (body req1) ''car_id'')" "truthy (field (body req1) ''travel_date'')"
               "pg_int4 L (field (body req1) ''car_id'') = Inr (Some k)"
               "pg_date L (field (body req1) ''travel_date'') = Inr d"
    and second: "authenticateToken L secret t2 req2 = Inr user2"
               "pg_int4 L (claim_id user2) = Inr (Some uid2)" "\<exists>u \<in> set (users s). u_id u = uid2"
               "truthy (field (body req2) ''car_id'')" "truthy (field (body req2) ''travel_date'')"
               "pg_int4 L (field (body req2) ''car_id'') = Inr (Some k)"
               "pg_date L (field (body req2) ''travel_date'') = Inr d"
  shows "\<exists>s1 s2. post_bookings L secret t1 req1 s
                   = ((201, MessageBody ''Booking created successfully''), s1)
               \<and> post_bookings L secret t2 req2 s1
                   = ((201, MessageBody ''Booking created successfully''), s2)
               \<and> bookings s2 = bookings s @
                   [\<lparr>b_id = bookings_id_seq s, b_user_id = Some uid1, b_car_id = Some k,
                     b_travel_date = d\<rparr>,
                    \<lparr>b_id = bookings_id_seq s + 1, b_user_id = Some uid2, b_car_id = Some k,
                     b_travel_date = d\<rparr>]"
proof -
  let ?row1 = "\<lparr>b_id = bookings_id_seq s, b_user_id = Some uid1, b_car_id = Some k,
                 b_travel_date = d\<rparr>"
  let ?s1 = "s\<lparr>bookings_id_seq := bookings_id_seq s + 1, bookings := bookings s @ [?row1]\<rparr>"
  have one: "post_bookings L secret t1 req1 s
             = ((201, MessageBody ''Booking created successfully''), ?s1)"
    using first(1,4,5,2,3,6) car first(7) seq(1) seq(2)
    by (intro post_bookings_ok) auto
  have car1: "\<exists>c \<in> set (cars ?s1). c_id c = k" using car by simp
  have usr1: "\<exists>u \<in> set (users ?s1). u_id u = uid2" using second(3) by simp
  have seq1: "\<forall>b \<in> set (bookings ?s1). b_id b < bookings_id_seq ?s1"
    using seq(1) by auto
  have lim1: "bookings_id_seq ?s1 \<le> int4_max" using seq(2) by simp
  have two: "post_bookings L secret t2 req2 ?s1
             = ((201, MessageBody ''Booking created successfully''),
                ?s1\<lparr>bookings_id_seq := bookings_id_seq ?s1 + 1,
                    bookings := bookings ?s1 @
                      [\<lparr>b_id = bookings_id_seq ?s1, b_user_id = Some uid2, b_car_id = Some k,
                        b_travel_date = d\<rparr>]\<rparr>)"
    using second(1,4,5,2) usr1 second(6) car1 second(7) seq1 lim1
    by (rule post_bookings_ok)
  show ?thesis
    by (intro exI conjI, rule one, rule two) simp
qed

text \<open>Bob books the Civic for 2025-01-01, then Ana books it for the same day.\<close>

theorem same_car_same_date_twice_witness:
  "post_bookings demo_lib (Some ''s3cret'') 10
     \<lparr>authorization = Some ''Bearer axx'', params_id = [],
      body = [(''car_id'', JNum 1), (''travel_date'', JStr ''2025-01-01'')]\<rparr>
     (snd (post_bookings demo_lib (Some ''s3cret'') 10
       \<lparr>authorization = Some ''Bearer bxx'', params_id = [],
        body = [(''car_id'', JNum 1), (''travel_date'', JStr ''2025-01-01'')]\<rparr> demo_store))
   = ((201, MessageBody ''Booking created successfully''),
      demo_store\<lparr>bookings_id_seq := 3, bookings :=
        [\<lparr>b_id = 1, b_user_id = Some 2, b_car_id = Some 1, b_travel_date = Some (2025, 1, 1)\<rparr>,
         \<lparr>b_id = 2, b_user_id = Some 1, b_car_id = Some 1, b_travel_date = Some (2025, 1, 1)\<rparr>]\<rparr>)"
proof -
  let ?body = "[(''car_id'', JNum 1), (''travel_date'', JStr ''2025-01-01'')]"
  let ?r1 = "\<lparr>authorization = Some ''Bearer bxx'', params_id = [], body = ?body\<rparr>"
  let ?r2 = "\<lparr>authorization = Some ''Bearer axx'', params_id = [], body = ?body\<rparr>"
  have car: "\<exists>c \<in> set (cars demo_store). c_id c = 1"
    by (simp add: demo_store_def civic_def)
  have seq: "\<forall>b \<in> set (bookings demo_store). b_id b < bookings_id_seq demo_store"
    "bookings_id_seq demo_store < int4_max"
    by (simp_all add: demo_store_def int4_max_def)
  have a1: "authenticateToken demo_lib (Some ''s3cret'') 10 ?r1
           = Inr \<lparr>claim_id = JNum 2, claim_email = JStr ''bob@x.com'',
                   claim_iat = 2, claim_exp = 3602\<rparr>"
    and a2: "authenticateToken demo_lib (Some ''s3cret'') 10 ?r2
           = Inr \<lparr>claim_id = JNum 1, claim_email = JStr ''ana@x.com'',
                   claim_iat = 2, claim_exp = 3602\<rparr>"
    by (simp_all add: authenticateToken_def header_token_def demo_lib_def demo_verify_def
          ana_def bob_def)
  have u1: "pg_int4 demo_lib (claim_id \<lparr>claim_id = JNum 2, claim_email = JStr ''bob@x.com'',
              claim_iat = 2, claim_exp = 3602\<rparr>) = Inr (Some 2)"
    and u2: "pg_int4 demo_lib (claim_id \<lparr>claim_id = JNum 1, claim_email = JStr ''ana@x.com'',
              claim_iat = 2, claim_exp = 3602\<rparr>) = Inr (Some 1)"
    by (simp_all add: demo_lib_def demo_int4_def int4_max_def)
  have e1: "\<exists>u \<in> set (users demo_store). u_id u = 2"
    and e2: "\<exists>u \<in> set (users demo_store). u_id u = 1"
    by (simp_all add: demo_store_def ana_row_def bob_row_def)
  have t: "truthy (field (body ?r1) ''car_id'')" "truthy (field (body ?r1) ''travel_date'')"
    and t': "truthy (field (body ?r2) ''car_id'')" "truthy (field (body ?r2) ''travel_date'')"
    by (simp_all add: field_def)
  have c1: "pg_int4 demo_lib (field (body ?r1) ''car_id'') = Inr (Some 1)"
    and c2: "pg_int4 demo_lib (field (body ?r2) ''car_id'') = Inr (Some 1)"
    by (simp_all add: demo_lib_def demo_int4_def int4_max_def field_def)
  have d1: "pg_date demo_lib (field (body ?r1) ''travel_date'') = Inr (Some (2025, 1, 1))"
    and d2: "pg_date demo_lib (field (body ?r2) ''travel_date'') = Inr (Some (2025, 1, 1))"
    by (simp_all add: demo_lib_def demo_date_def parse_nat_def field_def)
  from same_car_same_date_twice [OF car seq a1 u1 e1 t c1 d1 a2 u2 e2 t' c2 d2]
  obtain s1 s2 where "post_bookings demo_lib (Some ''s3cret'') 10 ?r1 demo_store
                   = ((201, MessageBody ''Booking created successfully''), s1)"
    and "post_bookings demo_lib (Some ''s3cret'') 10 ?r2 s1
                   = ((201, MessageBody ''Booking created successfully''), s2)"
    and "bookings s2 = bookings demo_store @
           [\<lparr>b_id = bookings_id_seq demo_store, b_user_id = Some 2, b_car_id = Some 1,
             b_travel_date = Some (2025, 1, 1)\<rparr>,
            \<lparr>b_id = bookings_id_seq demo_store + 1, b_user_id = Some 1, b_car_id = Some 1,
             b_travel_date = Some (2025, 1, 1)\<rparr>]"
    by blast
  then have "fst (post_bookings demo_lib (Some ''s3cret'') 10 ?r2
              (snd (post_bookings demo_lib (Some ''s3cret'') 10 ?r1 demo_store)))
             = (201, MessageBody ''Booking created successfully'')"
    by simp
  moreover have "snd (post_bookings demo_lib (Some ''s3cret'') 10 ?r2
              (snd (post_bookings demo_lib (Some ''s3cret'') 10 ?r1 demo_store)))
     = demo_store\<lparr>bookings_id_seq := 3, bookings :=
        [\<lparr>b_id = 1, b_user_id = Some 2, b_car_id = Some 1, b_travel_date = Some (2025, 1, 1)\<rparr>,
         \<lparr>b_id = 2, b_user_id = Some 1, b_car_id = Some 1, b_travel_date = Some (2025, 1, 1)\<rparr>]\<rparr>"
    by (simp add: post_bookings_def authenticateToken_def header_token_def demo_lib_def
        demo_verify_def ana_def bob_def select_cars_by_id_def demo_int4_def int4_max_def
        demo_store_def civic_def field_def insert_booking_def demo_date_def parse_nat_def
        ana_row_def bob_row_def)
  ultimately show ?thesis by (simp add: prod_eq_iff)
qed

subsection \<open>Falsy fields\<close>

lemma post_bookings_zero_car:
  assumes "field (body req) ''car_id'' = JNum 0"
  shows "snd (post_bookings L secret clock req s) = s"
    and "authenticateToken L secret clock req = Inr user \<Longrightarrow>
         post_bookings L secret clock req s
         = ((400, ErrorBody ''car_id and travel_date are required''), s)"
  using assms
  by (cases "authenticateToken L secret clock req"; simp add: post_bookings_def)+

text \<open>
  C10, as stated, fails twice. The gate comes before the presence check of
  \<^verbatim>\<open>POST /bookings\<close>: without a token, \<open>car_id: 0\<close> is answered 401, not 400. And the
  presence check tests the JavaScript value, not the price: the string \<open>"0"\<close> is truthy,
  so where the store reads it as the number zero, a car with price 0 is added.
\<close>

theorem zero_car_id_401_and_zero_price_added:
  "post_bookings demo_lib (Some ''s3cret'') 10
     \<lparr>authorization = None, params_id = [],
      body = [(''car_id'', JNum 0), (''travel_date'', JStr ''2025-01-01'')]\<rparr> demo_store
   = ((401, ErrorBody ''Token missing''), demo_store)
   \<and> post_cars demo_lib
     \<lparr>authorization = None, params_id = [],
      body = [(''name'', JStr ''Free''), (''details'', JStr ''gift''), (''price'', JStr ''0'')]\<rparr>
     demo_store
   = ((201, MessageBody ''Car added successfully''),
      demo_store\<lparr>cars_id_seq := 3, cars := [civic,
        \<lparr>c_id = 2, c_name = Some ''Free'', c_details = Some ''gift'', c_price = Some 0\<rparr>]\<rparr>)"
  by (simp add: post_bookings_def authenticateToken_def header_token_def post_cars_def field_def
        insert_car_def demo_lib_def demo_numeric_def demo_text_def parse_nat_def varchar_def
        int4_max_def demo_store_def civic_def)

text \<open>
  C10, amended. For every request: \<^verbatim>\<open>POST /cars\<close> with the number 0 as \<open>price\<close> is answered
  400; \<^verbatim>\<open>POST /bookings\<close> with the number 0 as \<open>car_id\<close> is answered 400 once the token
  has passed the gate; \<^verbatim>\<open>POST /register\<close> and \<^verbatim>\<open>POST /login\<close> with an empty string in
  one of their fields are answered 400. In each case the store is unchanged, also when
  the gate refuses the booking request.
\<close>

theorem falsy_fields_rejected:
  "(field (body req) ''price'' = JNum 0 \<longrightarrow>
      post_cars L req s = ((400, ErrorBody ''Name, details and price are required''), s))
   \<and> (field (body req) ''car_id'' = JNum 0 \<longrightarrow>
        snd (post_bookings L secret clock req s) = s
      \<and> (\<forall>user. authenticateToken L secret clock req = Inr user \<longrightarrow>
           post_bookings L secret clock req s
           = ((400, ErrorBody ''car_id and travel_date are required''), s)))
   \<and> (field (body req) ''name'' = JStr [] \<or> field (body req) ''email'' = JStr []
        \<or> field (body req) ''password'' = JStr [] \<longrightarrow>
      post_register L entropy req s
      = ((400, ErrorBody ''Name, email and password are required''), s))
   \<and> (field (body req) ''email'' = JStr [] \<or> field (body req) ''password'' = JStr [] \<longrightarrow>
      post_login L secret clock req s = ((400, ErrorBody ''Email and password are required''), s))"
proof (intro conjI impI allI)
  assume "field (body req) ''price'' = JNum 0"
  then show "post_cars L req s = ((400, ErrorBody ''Name, details and price are required''), s)"
    by (simp add: post_cars_def)
next
  assume "field (body req) ''car_id'' = JNum 0"
  then show "snd (post_bookings L secret clock req s) = s"
    by (rule post_bookings_zero_car(1))
next
  fix user
  assume "field (body req) ''car_id'' = JNum 0"
    and "authenticateToken L secret clock req = Inr user"
  then show "post_bookings L secret clock req s
           = ((400, ErrorBody ''car_id and travel_date are required''), s)"
    by (rule post_bookings_zero_car(2))
next
  assume "field (body req) ''name'' = JStr [] \<or> field (body req) ''email'' = JStr []
        \<or> field (body req) ''password'' = JStr []"
  then show "post_register L entropy req s
      = ((400, ErrorBody ''Name, email and password are required''), s)"
    by (auto simp: post_register_def)
next
  assume "field (body req) ''email'' = JStr [] \<or> field (body req) ''password'' = JStr []"
  then show "post_login L secret clock req s
             = ((400, ErrorBody ''Email and password are required''), s)"
    by (auto simp: post_login_def)
qed

theorem falsy_fields_rejected_witness:
  "post_cars demo_lib
     \<lparr>authorization = None, params_id = [],
      body = [(''name'', JStr ''Civic''), (''details'', JStr ''sedan''), (''price'', JNum 0)]\<rparr>
     demo_store
   = ((400, ErrorBody ''Name, details and price are required''), demo_store)
   \<and> post_bookings demo_lib (Some ''s3cret'') 10
     \<lparr>authorization = Some ''Bearer axx'', params_id = [],
      body = [(''car_id'', JNum 0), (''travel_date'', JStr ''2025-01-01'')]\<rparr> demo_store
   = ((400, ErrorBody ''car_id and travel_date are required''), demo_store)
   \<and> post_register demo_lib 7
     \<lparr>authorization = None, params_id = [],
      body = [(''name'', JStr ''Ana''), (''email'', JStr ''new@x.com''), (''password'', JStr [])]\<rparr>
     demo_store
   = ((400, ErrorBody ''Name, email and password are required''), demo_store)
   \<and> post_login demo_lib (Some ''s3cret'') 10
     \<lparr>authorization = None, params_id = [],
      body = [(''email'', JStr []), (''password'', JStr ''secret'')]\<rparr> demo_store
   = ((400, ErrorBody ''Email and password are required''), demo_store)"
proof -
  let ?car = "\<lparr>authorization = None, params_id = [],
      body = [(''name'', JStr ''Civic''), (''details'', JStr ''sedan''), (''price'', JNum 0)]\<rparr>"
  let ?book = "\<lparr>authorization = Some ''Bearer axx'', params_id = [],
      body = [(''car_id'', JNum 0), (''travel_date'', JStr ''2025-01-01'')]\<rparr>"
  let ?reg = "\<lparr>authorization = None, params_id = [],
      body = [(''name'', JStr ''Ana''), (''email'', JStr ''new@x.com''), (''password'', JStr [])]\<rparr>"
  let ?log = "\<lparr>authorization = None, params_id = [],
      body = [(''email'', JStr []), (''password'', JStr ''secret'')]\<rparr>"
  have auth: "authenticateToken demo_lib (Some ''s3cret'') 10 ?book
           = Inr \<lparr>claim_id = JNum 1, claim_email = JStr ''ana@x.com'',
                   claim_iat = 2, claim_exp = 3602\<rparr>"
    by (simp add: authenticateToken_def header_token_def demo_lib_def demo_verify_def ana_def)
  show ?thesis
    using falsy_fields_rejected [of ?car demo_lib demo_store "Some ''s3cret''" 10 7]
          falsy_fields_rejected [of ?book demo_lib demo_store "Some ''s3cret''" 10 7]
          falsy_fields_rejected [of ?reg demo_lib demo_store "Some ''s3cret''" 10 7]
          falsy_fields_rejected [of ?log demo_lib demo_store "Some ''s3cret''" 10 7]
          auth
    by (simp add: field_def)
qed

end
